theory Spec2Isabelle
  imports Complex_Main "HOL-Library.Word"
begin

unbundle bit_operations_syntax

section \<open>Sensor lines\<close>

text \<open>
  The seven hall-effect sensors sit on seven input pins, laid out along the line as
  \<^verbatim>\<open>|==<stop>==<slow>==<slow>==<stop>==<slow>==<slow>==<stop>==|\<close>
  (left station, middle station, right station). A snapshot gives the level that
  \<open>digitalRead\<close> returns for each pin: \<open>True\<close> is HIGH. The sensors are active low, so
  the source tests \<open>!digitalRead(pin)\<close>.
\<close>

datatype pin = L_STOP_PIN | L_SLOW_PIN | C_L_SLOW_PIN | C_STOP_PIN
  | C_R_SLOW_PIN | R_SLOW_PIN | R_STOP_PIN

type_synonym snapshot = "pin \<Rightarrow> bool"

definition digitalRead :: "snapshot \<Rightarrow> pin \<Rightarrow> bool" where
  "digitalRead ps p = ps p"

definition check_slow :: "snapshot \<Rightarrow> int" where
  "check_slow ps =
     (if \<not> digitalRead ps L_SLOW_PIN then 0
      else if \<not> digitalRead ps C_L_SLOW_PIN \<or> \<not> digitalRead ps C_R_SLOW_PIN then 1
      else if \<not> digitalRead ps R_SLOW_PIN then 2
      else - 1)"

definition check_center_slow :: "snapshot \<Rightarrow> int" where
  "check_center_slow ps =
     (if \<not> digitalRead ps C_L_SLOW_PIN then 0
      else if \<not> digitalRead ps C_R_SLOW_PIN then 2
      else - 1)"

definition check_stop :: "snapshot \<Rightarrow> int" where
  "check_stop ps =
     (if \<not> digitalRead ps L_STOP_PIN then 0
      else if \<not> digitalRead ps C_STOP_PIN then 1
      else if \<not> digitalRead ps R_STOP_PIN then 2
      else - 1)"

subsection \<open>The sensor-to-station mapping, as the specification words it\<close>

text \<open>
  A line is asserted when a magnet covers its sensor, that is when its pin reads LOW.
  Station 0 is the left terminus, 1 the middle station, 2 the right terminus. Each
  station has one stop line; the termini have one slow line each and the middle
  station has two, one on either side.
\<close>

definition all_pins :: "pin list" where
  "all_pins = [L_STOP_PIN, L_SLOW_PIN, C_L_SLOW_PIN, C_STOP_PIN,
               C_R_SLOW_PIN, R_SLOW_PIN, R_STOP_PIN]"

definition asserted :: "snapshot \<Rightarrow> pin \<Rightarrow> bool" where
  "asserted ps p = (\<not> ps p)"

definition asserted_lines :: "snapshot \<Rightarrow> pin list" where
  "asserted_lines ps = filter (asserted ps) all_pins"

fun stop_lines :: "int \<Rightarrow> pin list" where
  "stop_lines i =
     (if i = 0 then [L_STOP_PIN] else if i = 1 then [C_STOP_PIN]
      else if i = 2 then [R_STOP_PIN] else [])"

fun slow_lines :: "int \<Rightarrow> pin list" where
  "slow_lines i =
     (if i = 0 then [L_SLOW_PIN] else if i = 1 then [C_L_SLOW_PIN, C_R_SLOW_PIN]
      else if i = 2 then [R_SLOW_PIN] else [])"

definition stations :: "int list" where
  "stations = [0, 1, 2]"

definition asserted_stations :: "(int \<Rightarrow> pin list) \<Rightarrow> snapshot \<Rightarrow> int list" where
  "asserted_stations lines ps = filter (\<lambda>i. list_ex (asserted ps) (lines i)) stations"

definition lowest_or_none :: "int list \<Rightarrow> int" where
  "lowest_or_none xs = (if xs = [] then - 1 else Min (set xs))"

text \<open>Snapshots used as concrete inputs: nothing covered, one line covered, several covered.\<close>

definition all_clear :: snapshot where
  "all_clear = (\<lambda>p. True)"

definition only :: "pin \<Rightarrow> snapshot" where
  "only q = (\<lambda>p. p \<noteq> q)"

definition covered :: "pin list \<Rightarrow> snapshot" where
  "covered qs = (\<lambda>p. p \<notin> set qs)"

section \<open>Machine integers and constants\<close>

text \<open>
  On the ATmega1284P an \<open>int\<close> has 16 bits and an \<open>unsigned long\<close> 32. The timers
  (\<open>millis()\<close>, \<open>micros()\<close>, \<open>previousMillis\<close>, \<open>runMillis\<close>) are unsigned 32-bit
  words, whose subtraction wraps; an \<open>int\<close> or \<open>long\<close> constant compared with such a
  difference is converted to \<open>unsigned long\<close> first, so the timer constants are given
  as 32-bit words. The configuration arrays hold 16-bit \<open>int\<close>s. Station numbers and
  sensor results only ever hold the small constants assigned to them and take part in
  no arithmetic; they are plain integers.
\<close>

type_synonym int16 = "16 word"
type_synonym ulong = "32 word"

definition EE_MAGIC_NUMBER :: "16 word" where "EE_MAGIC_NUMBER = 0xBBDC"
definition NUM_STOPS :: nat where "NUM_STOPS = 3"
definition ACCEL_TICK_TIME :: ulong where "ACCEL_TICK_TIME = 150000"
definition WAIT_PAUSE_TIMER :: ulong where "WAIT_PAUSE_TIMER = 5000"
definition SLOW_MAX_TIMER :: ulong where "SLOW_MAX_TIMER = 15000"
definition RUN_MAX_TIMER :: ulong where "RUN_MAX_TIMER = 30000"
definition START_SPEED :: int where "START_SPEED = 10"
definition MIN_SPEED :: int where "MIN_SPEED = 15"
definition MAX_SPEED :: int where "MAX_SPEED = 41"
definition IDLE_SPEED :: int where "IDLE_SPEED = 8"

section \<open>The schedule\<close>

text \<open>
  \<open>on_off_times\<close> is an array of five \<open>int\<close>s: on hour, on minute, off hour, off
  minute, enabled. \<open>check_schedule\<close> reads it and the clock (\<open>hour()\<close>, \<open>minute()\<close>);
  \<open>depart_time\<close> reads \<open>minute()\<close> and \<open>second()\<close>. The minute counts are computed in
  16-bit \<open>int\<close> arithmetic and compared as signed values.
\<close>

definition check_schedule :: "int16 list \<Rightarrow> int16 \<Rightarrow> int16 \<Rightarrow> bool" where
  "check_schedule on_off_times hour minute =
     (if on_off_times ! 4 = 0 then True
      else
        let now_minutes = hour * 60 + minute;
            on_minutes = on_off_times ! 0 * 60 + on_off_times ! 1;
            off_minutes = on_off_times ! 2 * 60 + on_off_times ! 3
        in if on_minutes \<le>s now_minutes \<and> now_minutes <s off_minutes then True else False)"

definition depart_time :: "int16 \<Rightarrow> int16 \<Rightarrow> bool" where
  "depart_time minute second =
     (if (minute = 15 \<or> minute = 30 \<or> minute = 45 \<or> minute = 0) \<and> second = 0
      then True else False)"

subsection \<open>Minutes since midnight, as the specification words them\<close>

definition fits_int16 :: "int \<Rightarrow> bool" where
  "fits_int16 x = (- 32768 \<le> x \<and> x \<le> 32767)"

definition minutes_since_midnight :: "int16 \<Rightarrow> int16 \<Rightarrow> int" where
  "minutes_since_midnight h m = sint h * 60 + sint m"

text \<open>
  The hour and minute pairs whose minute count the 16-bit computation \<open>h * 60 + m\<close>
  represents without overflow; every time of day (0 to 23 hours, 0 to 59 minutes) is
  one of them.
\<close>

definition no_overflow :: "int16 \<Rightarrow> int16 \<Rightarrow> bool" where
  "no_overflow h m = (fits_int16 (sint h * 60) \<and> fits_int16 (sint h * 60 + sint m))"

section \<open>Program state\<close>

text \<open>
  \<open>program_state\<close> is an \<open>int\<close> that is only ever assigned one of the eight state
  constants, so the \<open>default\<close> case of the \<open>switch\<close> is never taken.
\<close>

datatype pstate = STATE_SLEEPING | STATE_STARTUP | STATE_WAITING | STATE_ACCEL
  | STATE_RUNNING | STATE_DEACCEL | STATE_SLOW | STATE_STOPPED

datatype motor_pin = MOTOR_LEFT_PIN | MOTOR_RIGHT_PIN

text \<open>
  The EEPROM holds three regions that do not overlap: the station wait times at
  address 0, the on and off times at address 128 and the magic number at address 2048.
\<close>

record eeprom =
  ee_station_wait_times :: "int16 list"
  ee_on_off_times :: "int16 list"
  ee_magic :: "16 word"

text \<open>
  The global variables of the sketch that the control loop reads or writes, the
  EEPROM, and the two motor outputs: \<open>pwm\<close> is the duty last written to each motor pin
  and \<open>motor_log\<close> lists every \<open>analogWrite\<close>, the latest first. \<open>motor_speed\<close> is a
  \<open>float\<close> in the source; every value it takes is a multiple of 0.25 between 0 and 41
  (lemma \<open>speed_in_range_run\<close> below), which binary floating point represents and adds
  exactly, so it is modelled by a rational number. The display and the serial console
  output are left out.
\<close>

record train =
  program_state :: pstate
  is_startup :: bool
  is_running :: bool
  motor_speed :: rat
  prev_motor_speed :: int
  direction_left :: bool
  temp_station :: int
  current_station :: int
  check_result :: int
  deaccel_tick_time :: int
  previousMillis :: ulong
  runMillis :: ulong
  station_wait_times :: "int16 list"
  on_off_times :: "int16 list"
  magicNumber :: "16 word"
  eeprom :: eeprom
  pwm :: "motor_pin \<Rightarrow> int"
  motor_log :: "(motor_pin \<times> int) list"

text \<open>
  What one pass of \<open>loop()\<close> reads from outside: the serial menu, the sensor lines, the
  two timers and the clock. The sensor lines and the timers are sampled once per pass;
  the recovery loop of the startup state polls the stop sensors again and again, and
  \<open>polls\<close> gives the snapshot that its n-th poll sees.
\<close>

datatype menu = NoInput
  | EditStations "(nat \<times> int16) list"
  | SetOnOffTime int16 int16 int16 int16 bool
  | LeaveNow
  | OtherKey

record input =
  serial :: menu
  pins :: snapshot
  polls :: "nat \<Rightarrow> snapshot"
  millis :: ulong
  micros :: ulong
  hour :: int16
  minute :: int16
  second :: int16

section \<open>Configuration store\<close>

text \<open>
  \<open>initEeprom\<close> fills the wait times with the loop
  \<^verbatim>\<open>for (int slot = 0; slot < (NUM_STOPS - 1); slot++)\<close>, whose two branches both store 10.
\<close>

function fill_station_wait_times :: "nat \<Rightarrow> int16 list \<Rightarrow> int16 list" where
  "fill_station_wait_times slot w =
     (if slot < NUM_STOPS - 1
      then fill_station_wait_times (slot + 1)
             (if slot = 0 \<or> slot = NUM_STOPS - 1 then w[slot := 10] else w[slot := 10])
      else w)"
  by pat_completeness auto
termination
  by (relation "measure (\<lambda>(slot, w). NUM_STOPS - 1 - slot)") auto

declare fill_station_wait_times.simps [simp del]

definition initEeprom :: "train \<Rightarrow> train" where
  "initEeprom st =
     (let st1 = st\<lparr>eeprom := (eeprom st)\<lparr>ee_magic := EE_MAGIC_NUMBER\<rparr>\<rparr>;
          st2 = st1\<lparr>station_wait_times := fill_station_wait_times 0 (station_wait_times st1)\<rparr>;
          st3 = st2\<lparr>eeprom := (eeprom st2)\<lparr>ee_station_wait_times := station_wait_times st2\<rparr>\<rparr>;
          st4 = st3\<lparr>on_off_times := [6, 0, 22, 0, 1]\<rparr>
      in st4\<lparr>eeprom := (eeprom st4)\<lparr>ee_on_off_times := on_off_times st4\<rparr>\<rparr>)"

text \<open>The values the globals have when \<open>setup()\<close> starts, over a given EEPROM.\<close>

definition power_on :: "eeprom \<Rightarrow> train" where
  "power_on ee =
     \<lparr>program_state = STATE_STARTUP, is_startup = True, is_running = True,
      motor_speed = 0, prev_motor_speed = 0, direction_left = False,
      temp_station = 0, current_station = 3, check_result = 9,
      deaccel_tick_time = 1000, previousMillis = 0, runMillis = 0,
      station_wait_times = [0, 0, 0], on_off_times = [0, 0, 0, 0, 0],
      magicNumber = 0, eeprom = ee,
      pwm = (\<lambda>p. 0), motor_log = []\<rparr>"

text \<open>The part of \<open>setup()\<close> that loads the configuration.\<close>

definition setup_fn :: "train \<Rightarrow> train" where
  "setup_fn st =
     (let st1 = st\<lparr>magicNumber := ee_magic (eeprom st)\<rparr>
      in if magicNumber st1 \<noteq> EE_MAGIC_NUMBER then initEeprom st1
         else st1\<lparr>station_wait_times := ee_station_wait_times (eeprom st1),
                  on_off_times := ee_on_off_times (eeprom st1)\<rparr>)"

section \<open>The serial menu\<close>

text \<open>
  The part of \<open>loop()\<close> before the \<open>switch\<close>. The dialogs behind keys 1 and 3 block until
  they are finished; \<open>EditStations\<close> carries the slot and wait time pairs that the
  finished dialog stored (it asks again until the slot is within \<open>NUM_STOPS\<close> and the
  time is not negative) and \<open>SetOnOffTime\<close> the five values it stored (it asks again
  until the last is 0 or 1). Both write the array to the EEPROM. Key 7 makes the train
  leave now. The other keys change nothing that the control loop reads.
\<close>

definition editStations :: "(nat \<times> int16) list \<Rightarrow> train \<Rightarrow> train" where
  "editStations edits st =
     (let w = fold (\<lambda>(slot, stopTime) w.
                 if slot < NUM_STOPS \<and> 0 \<le>s stopTime then w[slot := stopTime] else w)
               edits (station_wait_times st)
      in st\<lparr>station_wait_times := w,
            eeprom := (eeprom st)\<lparr>ee_station_wait_times := w\<rparr>\<rparr>)"

definition setOnOffTime :: "int16 \<Rightarrow> int16 \<Rightarrow> int16 \<Rightarrow> int16 \<Rightarrow> bool \<Rightarrow> train \<Rightarrow> train" where
  "setOnOffTime a b c d e st =
     (let t = [a, b, c, d, if e then 1 else 0]
      in st\<lparr>on_off_times := t, eeprom := (eeprom st)\<lparr>ee_on_off_times := t\<rparr>\<rparr>)"

fun menu_input :: "menu \<Rightarrow> train \<Rightarrow> train" where
  "menu_input NoInput st = st"
| "menu_input (EditStations edits) st = editStations edits st"
| "menu_input (SetOnOffTime a b c d e) st = setOnOffTime a b c d e st"
| "menu_input LeaveNow st =
     st\<lparr>motor_speed := of_int START_SPEED, program_state := STATE_ACCEL\<rparr>"
| "menu_input OtherKey st = st"

section \<open>The states of the control loop\<close>

text \<open>
  Each definition is one \<open>case\<close> of the \<open>switch\<close> in \<open>loop()\<close>. A \<open>break\<close> inside an
  \<open>if\<close> ends the case; where the source has none, control falls on to the next
  statement of the case, and the definitions keep that.
\<close>

definition state_sleeping :: "input \<Rightarrow> train \<Rightarrow> train" where
  "state_sleeping inp st =
     (let st1 = st\<lparr>is_running := check_schedule (on_off_times st) (hour inp) (minute inp)\<rparr>
      in if is_running st1 then st1\<lparr>program_state := STATE_STARTUP\<rparr> else st1)"

subsection \<open>Startup\<close>

text \<open>
  The startup state samples the stop sensors once. When none is covered it enters
  \<^verbatim>\<open>while (current_station == -1) { ... }\<close>, which samples them again until one is.
  \<open>startup_poll\<close> is the body of that loop and \<open>startup_wait\<close> the loop; it has no
  value (\<open>None\<close>) when the loop never ends.
\<close>

definition startup_poll :: "snapshot \<Rightarrow> train \<Rightarrow> train" where
  "startup_poll ps st =
     (let cs = check_stop ps;
          st1 = st\<lparr>temp_station := cs, current_station := cs\<rparr>;
          st2 = (if current_station st1 = 0
                 then st1\<lparr>current_station := 0, direction_left := False,
                          program_state := STATE_ACCEL\<rparr>
                 else st1)
      in if 1 \<le> current_station st2
         then st2\<lparr>direction_left := True, motor_speed := of_int MIN_SPEED,
                  program_state := STATE_ACCEL\<rparr>
         else st2)"

partial_function (option) startup_wait :: "(nat \<Rightarrow> snapshot) \<Rightarrow> nat \<Rightarrow> train \<Rightarrow> train option" where
  "startup_wait smp n st =
     (if current_station st = - 1
      then startup_wait smp (Suc n) (startup_poll (smp n) st)
      else Some st)"

text \<open>The state after \<open>k\<close> passes through the body of the recovery loop.\<close>

fun startup_polls :: "nat \<Rightarrow> (nat \<Rightarrow> snapshot) \<Rightarrow> train \<Rightarrow> train" where
  "startup_polls 0 smp st = st"
| "startup_polls (Suc k) smp st = startup_poll (smp k) (startup_polls k smp st)"

definition startup_first :: "input \<Rightarrow> train \<Rightarrow> train" where
  "startup_first inp st =
     (let cs = check_stop (pins inp);
          st1 = st\<lparr>is_startup := False, temp_station := cs, current_station := cs\<rparr>;
          st2 = (if current_station st1 = 0
                 then st1\<lparr>current_station := 0, direction_left := True,
                          program_state := STATE_ACCEL\<rparr>
                 else st1)
      in if 1 \<le> current_station st2
         then st2\<lparr>direction_left := False, motor_speed := of_int MIN_SPEED,
                  program_state := STATE_ACCEL\<rparr>
         else st2)"

definition state_startup :: "input \<Rightarrow> train \<Rightarrow> train option" where
  "state_startup inp st =
     (case startup_wait (polls inp) 0 (startup_first inp st) of
        None \<Rightarrow> None
      | Some st1 \<Rightarrow> Some (st1\<lparr>program_state := STATE_ACCEL, previousMillis := millis inp\<rparr>))"

subsection \<open>Waiting\<close>

text \<open>
  The wait at the middle station compares the unsigned timer difference with
  \<open>long(station_wait_times[current_station]) * 1000\<close>: the 16-bit wait time is sign
  extended to 32 bits, multiplied, and converted to \<open>unsigned long\<close>.
\<close>

definition state_waiting :: "input \<Rightarrow> train \<Rightarrow> train" where
  "state_waiting inp st =
     (let st1 = (if current_station st = 1 then st\<lparr>motor_speed := of_int IDLE_SPEED\<rparr>
                 else st\<lparr>motor_speed := of_int IDLE_SPEED\<rparr>);
          st2 = (if current_station st1 \<noteq> 1 \<and> WAIT_PAUSE_TIMER < millis inp - previousMillis st1
                 then st1\<lparr>motor_speed := 0\<rparr> else st1);
          st3 = st2\<lparr>is_running := check_schedule (on_off_times st2) (hour inp) (minute inp)\<rparr>
      in if \<not> is_running st3
         then st3\<lparr>motor_speed := 0, program_state := STATE_SLEEPING\<rparr>
         else if (current_station st3 = 1 \<and>
                  (scast (station_wait_times st3 ! nat (current_station st3)) :: ulong) * 1000
                    < millis inp - previousMillis st3)
                 \<or> (current_station st3 \<noteq> 1 \<and> depart_time (minute inp) (second inp))
         then st3\<lparr>program_state := STATE_ACCEL, motor_speed := of_int START_SPEED,
                  previousMillis := micros inp\<rparr>
         else st3)"

subsection \<open>Accelerating\<close>

definition accel_speed :: "input \<Rightarrow> train \<Rightarrow> train" where
  "accel_speed inp st =
     (if of_int MAX_SPEED \<le> motor_speed st
      then st\<lparr>program_state := STATE_RUNNING, runMillis := millis inp\<rparr>
      else if ACCEL_TICK_TIME \<le> micros inp - previousMillis st
      then st\<lparr>motor_speed := motor_speed st + 1 / 4, previousMillis := micros inp\<rparr>
      else st)"

definition accel_stop :: "input \<Rightarrow> train \<Rightarrow> train" where
  "accel_stop inp st =
     (let st1 = st\<lparr>check_result := check_stop (pins inp)\<rparr>
      in if - 1 < check_result st1 \<and> check_result st1 \<noteq> 1
         then (if current_station st1 = check_result st1 then st1
               else st1\<lparr>current_station := check_result st1,
                        temp_station := check_result st1,
                        program_state := STATE_STOPPED,
                        previousMillis := micros inp\<rparr>)
         else st1)"

definition state_accel :: "input \<Rightarrow> train \<Rightarrow> train" where
  "state_accel inp st =
     (let st1 = st\<lparr>check_result := check_slow (pins inp)\<rparr>
      in if - 1 < check_result st1 \<and> current_station st1 \<noteq> check_result st1
         then st1\<lparr>current_station := check_result st1,
                  temp_station := check_result st1,
                  program_state := STATE_DEACCEL,
                  previousMillis := micros inp\<rparr>
         else accel_speed inp (accel_stop inp st1))"

subsection \<open>Running\<close>

text \<open>
  \<open>direction_left\<close> is a \<open>bool\<close> and the source reverses it with
  \<^verbatim>\<open>direction_left = ~direction_left;\<close>: the operand is promoted to \<open>int\<close> (0 or 1),
  complemented bit by bit, and the result is converted back to \<open>bool\<close>, which is true
  for every value other than 0.
\<close>

definition complement_bool :: "bool \<Rightarrow> bool" where
  "complement_bool b = (NOT (if b then 1 else 0 :: int16) \<noteq> 0)"

definition emergency_stop :: "train \<Rightarrow> train" where
  "emergency_stop st =
     st\<lparr>program_state := STATE_STOPPED, direction_left := complement_bool (direction_left st)\<rparr>"

definition running_slow :: "input \<Rightarrow> train \<Rightarrow> train" where
  "running_slow inp st =
     (let st1 = st\<lparr>check_result := check_slow (pins inp)\<rparr>
      in if - 1 < check_result st1
         then (if current_station st1 = check_result st1 then st1
               else st1\<lparr>current_station := check_result st1,
                        temp_station := check_result st1,
                        program_state := STATE_DEACCEL,
                        previousMillis := micros inp\<rparr>)
         else st1)"

definition running_stop :: "input \<Rightarrow> train \<Rightarrow> train" where
  "running_stop inp st =
     (let st1 = st\<lparr>check_result := check_stop (pins inp)\<rparr>
      in if - 1 < check_result st1 \<and> check_result st1 \<noteq> 1
         then st1\<lparr>current_station := check_result st1,
                  program_state := STATE_STOPPED,
                  previousMillis := micros inp\<rparr>
         else st1)"

definition state_running :: "input \<Rightarrow> train \<Rightarrow> train" where
  "state_running inp st =
     (if RUN_MAX_TIMER \<le> millis inp - runMillis st then emergency_stop st
      else running_stop inp (running_slow inp st))"

subsection \<open>Decelerating and creeping\<close>

text \<open>
  \<open>deaccel_tick_time\<close> is an \<open>int\<close> that only ever holds 1000, 19000 or 1; compared
  with the unsigned timer difference it keeps its value.
\<close>

definition center_slow_stop :: "input \<Rightarrow> train \<Rightarrow> train \<times> bool" where
  "center_slow_stop inp st =
     (let st1 = st\<lparr>check_result := check_center_slow (pins inp)\<rparr>
      in if (check_result st1 = 0 \<and> direction_left st1)
            \<or> (check_result st1 = 2 \<and> \<not> direction_left st1)
         then (st1\<lparr>current_station := 1, temp_station := 1,
                   program_state := STATE_STOPPED,
                   previousMillis := micros inp\<rparr>, True)
         else (st1, False))"

definition deaccel_speed :: "input \<Rightarrow> train \<Rightarrow> train" where
  "deaccel_speed inp st =
     (if motor_speed st \<le> of_int MIN_SPEED
      then st\<lparr>program_state := STATE_SLOW, runMillis := millis inp\<rparr>
      else
        let st1 = (if current_station st = 1 then st\<lparr>deaccel_tick_time := 19000\<rparr>
                   else st\<lparr>deaccel_tick_time := 1\<rparr>)
        in if deaccel_tick_time st1 \<le> uint (micros inp - previousMillis st1)
              \<and> of_int MIN_SPEED < motor_speed st1
           then st1\<lparr>motor_speed := motor_speed st1 - 1, previousMillis := micros inp\<rparr>
           else st1)"

definition state_deaccel :: "input \<Rightarrow> train \<Rightarrow> train" where
  "state_deaccel inp st =
     (let st1 = st\<lparr>check_result := check_stop (pins inp)\<rparr>
      in if - 1 < check_result st1 \<and> check_result st1 \<noteq> 1
         then st1\<lparr>current_station := check_result st1,
                  temp_station := check_result st1,
                  program_state := STATE_STOPPED,
                  previousMillis := micros inp\<rparr>
         else if check_result st1 = 1
         then (case center_slow_stop inp st1 of
                 (st2, stopped) \<Rightarrow> if stopped then st2 else deaccel_speed inp st2)
         else deaccel_speed inp st1)"

definition state_slow :: "input \<Rightarrow> train \<Rightarrow> train" where
  "state_slow inp st =
     (if SLOW_MAX_TIMER \<le> millis inp - runMillis st then emergency_stop st
      else
        let st1 = st\<lparr>check_result := check_stop (pins inp)\<rparr>
        in if - 1 < check_result st1 \<and> check_result st1 \<noteq> 1
           then st1\<lparr>current_station := check_result st1,
                    temp_station := check_result st1,
                    program_state := STATE_STOPPED\<rparr>
           else if current_station st1 = 1
           then fst (center_slow_stop inp st1)
           else st1)"

subsection \<open>Stopped\<close>

definition state_stopped :: "input \<Rightarrow> train \<Rightarrow> train" where
  "state_stopped inp st =
     (let st1 = (if current_station st = 1 then st\<lparr>motor_speed := of_int IDLE_SPEED\<rparr>
                 else st\<lparr>motor_speed := of_int IDLE_SPEED\<rparr>);
          st2 = (if current_station st1 = 2 then st1\<lparr>direction_left := True\<rparr> else st1);
          waiting = (\<lambda>s. s\<lparr>program_state := STATE_WAITING, previousMillis := millis inp\<rparr>)
      in if current_station st2 = 0
         then
           let st3 = st2\<lparr>direction_left := False\<rparr>;
               st4 = st3\<lparr>is_running := check_schedule (on_off_times st3) (hour inp) (minute inp)\<rparr>
           in if \<not> is_running st4
              then st4\<lparr>program_state := STATE_SLEEPING, previousMillis := millis inp\<rparr>
              else waiting st4
         else waiting st2)"

section \<open>Motor output\<close>

text \<open>
  \<open>analogWrite\<close> takes an \<open>int\<close>, so the \<open>float\<close> speed is truncated towards zero when it
  is written, as it is when it is stored in the \<open>int\<close> \<open>prev_motor_speed\<close>. The test
  \<open>motor_speed != prev_motor_speed\<close> converts the \<open>int\<close> to \<open>float\<close>.
\<close>

definition float_to_int :: "rat \<Rightarrow> int" where
  "float_to_int x = (if 0 \<le> x then \<lfloor>x\<rfloor> else \<lceil>x\<rceil>)"

definition analogWrite :: "motor_pin \<Rightarrow> int \<Rightarrow> train \<Rightarrow> train" where
  "analogWrite p v st = st\<lparr>pwm := (pwm st)(p := v), motor_log := (p, v) # motor_log st\<rparr>"

definition motor_output :: "train \<Rightarrow> train" where
  "motor_output st =
     (if motor_speed st \<noteq> of_int (prev_motor_speed st)
      then
        let st1 = (if direction_left st
                   then analogWrite MOTOR_RIGHT_PIN 0
                          (analogWrite MOTOR_LEFT_PIN (float_to_int (motor_speed st)) st)
                   else analogWrite MOTOR_LEFT_PIN 0
                          (analogWrite MOTOR_RIGHT_PIN (float_to_int (motor_speed st)) st))
        in st1\<lparr>prev_motor_speed := float_to_int (motor_speed st1)\<rparr>
      else st)"

subsection \<open>The two channels, as the specification words them\<close>

text \<open>
  The channel that \<open>direction_left\<close> selects, the other channel, and the duty that a
  channel carries.
\<close>

definition drive_pin :: "train \<Rightarrow> motor_pin" where
  "drive_pin st = (if direction_left st then MOTOR_LEFT_PIN else MOTOR_RIGHT_PIN)"

definition idle_pin :: "train \<Rightarrow> motor_pin" where
  "idle_pin st = (if direction_left st then MOTOR_RIGHT_PIN else MOTOR_LEFT_PIN)"

definition duty :: "motor_pin \<Rightarrow> train \<Rightarrow> int" where
  "duty p st = pwm st p"

section \<open>One pass of the loop\<close>

fun state_machine :: "input \<Rightarrow> train \<Rightarrow> train option" where
  "state_machine inp st =
     (case program_state st of
        STATE_SLEEPING \<Rightarrow> Some (state_sleeping inp st)
      | STATE_STARTUP \<Rightarrow> state_startup inp st
      | STATE_WAITING \<Rightarrow> Some (state_waiting inp st)
      | STATE_ACCEL \<Rightarrow> Some (state_accel inp st)
      | STATE_RUNNING \<Rightarrow> Some (state_running inp st)
      | STATE_DEACCEL \<Rightarrow> Some (state_deaccel inp st)
      | STATE_SLOW \<Rightarrow> Some (state_slow inp st)
      | STATE_STOPPED \<Rightarrow> Some (state_stopped inp st))"

definition loop :: "input \<Rightarrow> train \<Rightarrow> train option" where
  "loop inp st = map_option motor_output (state_machine inp (menu_input (serial inp) st))"

text \<open>Successive passes, one input each; \<open>None\<close> when a pass never ends.\<close>

fun run :: "input list \<Rightarrow> train \<Rightarrow> train option" where
  "run [] st = Some st"
| "run (inp # inps) st = (case loop inp st of None \<Rightarrow> None | Some st1 \<Rightarrow> run inps st1)"

section \<open>Speed range\<close>

text \<open>
  A speed that is a whole number of quarter units, and the range of speeds that the
  control loop keeps: quarter steps from 0 to \<open>MAX_SPEED\<close>.
\<close>

definition quarter_steps :: "rat \<Rightarrow> bool" where
  "quarter_steps x = (of_int \<lfloor>x * 4\<rfloor> = x * 4)"

definition speed_in_range :: "train \<Rightarrow> bool" where
  "speed_in_range st =
     (quarter_steps (motor_speed st) \<and> 0 \<le> motor_speed st \<and> motor_speed st \<le> of_int MAX_SPEED)"

section \<open>Concrete inputs\<close>

text \<open>
  An EEPROM that was never written (every byte \<open>0xFF\<close>) and the controller that
  \<open>setup()\<close> leaves over it. A pass of the loop on which nothing happens: no key, no
  sensor covered, the timers at 0, the clock at 12:07:30. \<open>pass k ps\<close> is the pass
  150 ms times \<open>k\<close> after power-on, with the sensors reading \<open>ps\<close>; \<open>ticks n k\<close> are \<open>n\<close>
  such passes from pass \<open>k\<close> on with no sensor covered. \<open>moved_onto p\<close> is a pass during
  which the train, at first on no sensor, is put onto sensor \<open>p\<close> by hand.
\<close>

definition erased :: eeprom where
  "erased = \<lparr>ee_station_wait_times = [- 1, - 1, - 1],
              ee_on_off_times = [- 1, - 1, - 1, - 1, - 1], ee_magic = - 1\<rparr>"

definition factory_fresh :: train where
  "factory_fresh = setup_fn (power_on erased)"

definition quiet :: input where
  "quiet = \<lparr>serial = NoInput, pins = all_clear, polls = (\<lambda>n. all_clear),
             millis = 0, micros = 0, hour = 12, minute = 7, second = 30\<rparr>"

definition pass :: "nat \<Rightarrow> snapshot \<Rightarrow> input" where
  "pass k ps = quiet\<lparr>pins := ps, polls := (\<lambda>n. ps),
                     millis := of_nat k * 150, micros := of_nat k * 150000\<rparr>"

definition moved_onto :: "pin \<Rightarrow> input" where
  "moved_onto p = quiet\<lparr>polls := (\<lambda>n. if n < 2 then all_clear else only p)\<rparr>"

definition at_clock :: "int16 \<Rightarrow> int16 \<Rightarrow> int16 \<Rightarrow> input \<Rightarrow> input" where
  "at_clock h m s inp = inp\<lparr>hour := h, minute := m, second := s\<rparr>"

primrec ticks :: "nat \<Rightarrow> nat \<Rightarrow> input list" where
  "ticks 0 k = []"
| "ticks (Suc n) k = pass k all_clear # ticks n (k + 1)"

definition leave_now :: "input \<Rightarrow> input" where
  "leave_now inp = inp\<lparr>serial := LeaveNow\<rparr>"

text \<open>The polls of a recovery loop during which no sensor is ever covered.\<close>

definition never_covered :: "nat \<Rightarrow> snapshot" where
  "never_covered n = all_clear"

text \<open>
  From a standstill at 15 units the speed reaches 41 after 104 acceleration ticks, and
  the pass after that enters the running state. The train starts from the right stop
  sensor: put onto it by hand after power-on, it leaves to the left; standing on it at
  power-on, it is driven to the right, off the sensor and towards the end of the line.
\<close>

definition to_full_speed :: "input list" where
  "to_full_speed = ticks 105 1"

definition full_speed_leftward :: "input list" where
  "full_speed_leftward = moved_onto R_STOP_PIN # to_full_speed"

definition full_speed_rightward :: "input list" where
  "full_speed_rightward = pass 0 (only R_STOP_PIN) # to_full_speed"

text \<open>
  The train is put onto the right stop sensor, leaves to the left, meets the slow
  sensor on the right of the middle station, creeps, and stops at the slow sensor on
  the left of the middle station, where it then waits.
\<close>

definition to_middle_platform :: "input list" where
  "to_middle_platform =
     [moved_onto R_STOP_PIN, pass 1 (only C_R_SLOW_PIN), pass 2 all_clear,
      pass 3 (only C_L_SLOW_PIN), pass 4 (only C_L_SLOW_PIN)]"

section \<open>Evaluation rules\<close>

lemma ticks_numeral: "ticks (numeral n) k = pass k all_clear # ticks (pred_numeral n) (k + 1)"
  by (simp add: numeral_eq_Suc)

lemma floor_quotient_numeral: "\<lfloor>numeral a / numeral b :: rat\<rfloor> = numeral a div numeral b"
  using floor_divide_of_int_eq [of "numeral a" "numeral b", where ?'a = rat] by simp

lemma floor_one_quotient_numeral: "\<lfloor>1 / numeral b :: rat\<rfloor> = 1 div numeral b"
  using floor_divide_of_int_eq [of 1 "numeral b", where ?'a = rat] by simp

lemma startup_wait_found: "current_station st \<noteq> - 1 \<Longrightarrow> startup_wait smp n st = Some st"
  by (subst startup_wait.simps) simp

lemma startup_wait_again:
  "current_station st = - 1 \<Longrightarrow>
     startup_wait smp n st = startup_wait smp (Suc n) (startup_poll (smp n) st)"
  by (subst startup_wait.simps) simp

lemmas constants = EE_MAGIC_NUMBER_def NUM_STOPS_def ACCEL_TICK_TIME_def WAIT_PAUSE_TIMER_def
  SLOW_MAX_TIMER_def RUN_MAX_TIMER_def START_SPEED_def MIN_SPEED_def MAX_SPEED_def IDLE_SPEED_def

lemmas sensors = digitalRead_def check_slow_def check_center_slow_def check_stop_def
  all_clear_def only_def covered_def

lemmas passes = quiet_def pass_def moved_onto_def at_clock_def leave_now_def ticks_numeral
  factory_fresh_def erased_def power_on_def

lemmas steps = loop_def setup_fn_def initEeprom_def fill_station_wait_times.simps
  state_sleeping_def state_startup_def startup_first_def startup_poll_def
  startup_wait_found startup_wait_again state_waiting_def check_schedule_def depart_time_def
  state_accel_def accel_stop_def accel_speed_def state_running_def running_slow_def
  running_stop_def emergency_stop_def complement_bool_def state_deaccel_def deaccel_speed_def
  center_slow_stop_def state_slow_def state_stopped_def motor_output_def analogWrite_def
  float_to_int_def floor_quotient_numeral floor_one_quotient_numeral
  editStations_def setOnOffTime_def word_sle_eq word_sless_alt Let_def

lemma run_append:
  "run (xs @ ys) st = (case run xs st of None \<Rightarrow> None | Some st1 \<Rightarrow> run ys st1)"
  by (induction xs arbitrary: st) (simp_all split: option.splits)

lemma run_snoc: "run xs st = Some st1 \<Longrightarrow> run (xs @ [inp]) st = loop inp st1"
  by (simp add: run_append split: option.splits)

lemma menu_input_keeps:
  assumes "serial inp \<noteq> LeaveNow"
  shows "program_state (menu_input (serial inp) st) = program_state st"
    and "motor_speed (menu_input (serial inp) st) = motor_speed st"
    and "direction_left (menu_input (serial inp) st) = direction_left st"
    and "current_station (menu_input (serial inp) st) = current_station st"
    and "runMillis (menu_input (serial inp) st) = runMillis st"
    and "previousMillis (menu_input (serial inp) st) = previousMillis st"
    and "prev_motor_speed (menu_input (serial inp) st) = prev_motor_speed st"
  using assms
  by (cases "serial inp"; simp add: editStations_def setOnOffTime_def Let_def)+

lemma direction_left_motor_output: "direction_left (motor_output st) = direction_left st"
  and program_state_motor_output: "program_state (motor_output st) = program_state st"
  and current_station_motor_output: "current_station (motor_output st) = current_station st"
  and motor_speed_motor_output: "motor_speed (motor_output st) = motor_speed st"
  by (simp_all add: motor_output_def analogWrite_def Let_def)

section \<open>Sensor queries\<close>

lemma all_pins_complete: "p \<in> set all_pins"
  by (cases p) (simp_all add: all_pins_def)

lemma single_asserted:
  assumes "length (asserted_lines ps) \<le> 1" and "asserted ps p" and "asserted ps q"
  shows "p = q"
proof (rule ccontr)
  assume "p \<noteq> q"
  have "{p, q} \<subseteq> set (asserted_lines ps)"
    using assms(2,3) by (simp add: asserted_lines_def all_pins_complete)
  then have "card {p, q} \<le> card (set (asserted_lines ps))"
    by (intro card_mono) simp_all
  also have "\<dots> \<le> length (asserted_lines ps)"
    by (rule card_length)
  finally show False
    using \<open>p \<noteq> q\<close> assms(1) by simp
qed

lemma no_asserted: "asserted_lines ps = [] \<Longrightarrow> \<not> asserted ps p"
  by (metis all_pins_complete asserted_lines_def filter_empty_conv)

lemma check_stop_asserted:
  "check_stop ps =
     (if asserted ps L_STOP_PIN then 0 else if asserted ps C_STOP_PIN then 1
      else if asserted ps R_STOP_PIN then 2 else - 1)"
  by (simp add: check_stop_def digitalRead_def asserted_def)

lemma check_slow_asserted:
  "check_slow ps =
     (if asserted ps L_SLOW_PIN then 0
      else if asserted ps C_L_SLOW_PIN \<or> asserted ps C_R_SLOW_PIN then 1
      else if asserted ps R_SLOW_PIN then 2 else - 1)"
  by (simp add: check_slow_def digitalRead_def asserted_def)

text \<open>
  Claim C7. On a snapshot with at most one asserted line, \<open>check_stop\<close> returns the
  station of the asserted stop line (0 left, 1 centre, 2 right) and \<open>check_slow\<close> the
  station of the asserted slow line (0 left, 1 for either slow line beside the middle
  station, 2 right); on a snapshot with no asserted line both return -1.
\<close>

theorem check_stop_slow_single_line:
  "length (asserted_lines ps) \<le> 1 \<Longrightarrow>
     (\<forall>i p. p \<in> set (stop_lines i) \<and> asserted ps p \<longrightarrow> check_stop ps = i) \<and>
     (\<forall>i p. p \<in> set (slow_lines i) \<and> asserted ps p \<longrightarrow> check_slow ps = i) \<and>
     (asserted_lines ps = [] \<longrightarrow> check_stop ps = - 1 \<and> check_slow ps = - 1)"
proof (intro conjI allI impI)
  assume one: "length (asserted_lines ps) \<le> 1"
  {
    fix i p
    assume h: "p \<in> set (stop_lines i) \<and> asserted ps p"
    then have "\<And>q. asserted ps q \<Longrightarrow> q = p"
      using single_asserted [OF one] by blast
    with h show "check_stop ps = i"
      by (auto simp: check_stop_asserted split: if_splits)
  }
  {
    fix i p
    assume h: "p \<in> set (slow_lines i) \<and> asserted ps p"
    then have "\<And>q. asserted ps q \<Longrightarrow> q = p"
      using single_asserted [OF one] by blast
    with h show "check_slow ps = i"
      by (auto simp: check_slow_asserted split: if_splits)
  }
  {
    assume "asserted_lines ps = []"
    then show "check_stop ps = - 1"
      by (simp add: check_stop_asserted no_asserted)
  }
  {
    assume "asserted_lines ps = []"
    then show "check_slow ps = - 1"
      by (simp add: check_slow_asserted no_asserted)
  }
qed

theorem check_stop_slow_single_line_witness:
  "length (asserted_lines (only C_R_SLOW_PIN)) \<le> 1 \<and>
   C_R_SLOW_PIN \<in> set (slow_lines 1) \<and> asserted (only C_R_SLOW_PIN) C_R_SLOW_PIN \<and>
   check_slow (only C_R_SLOW_PIN) = 1 \<and>
   length (asserted_lines (only R_STOP_PIN)) \<le> 1 \<and>
   R_STOP_PIN \<in> set (stop_lines 2) \<and> asserted (only R_STOP_PIN) R_STOP_PIN \<and>
   check_stop (only R_STOP_PIN) = 2 \<and>
   asserted_lines all_clear = [] \<and> check_stop all_clear = - 1 \<and> check_slow all_clear = - 1"
proof -
  have a: "length (asserted_lines (only C_R_SLOW_PIN)) \<le> 1"
    by (simp add: asserted_lines_def all_pins_def asserted_def only_def)
  have b: "length (asserted_lines (only R_STOP_PIN)) \<le> 1"
    by (simp add: asserted_lines_def all_pins_def asserted_def only_def)
  have c: "length (asserted_lines all_clear) \<le> 1" and d: "asserted_lines all_clear = []"
    by (simp_all add: asserted_lines_def all_pins_def asserted_def all_clear_def)
  have e: "C_R_SLOW_PIN \<in> set (slow_lines 1) \<and> asserted (only C_R_SLOW_PIN) C_R_SLOW_PIN"
    by (simp add: asserted_def only_def)
  have f: "R_STOP_PIN \<in> set (stop_lines 2) \<and> asserted (only R_STOP_PIN) R_STOP_PIN"
    by (simp add: asserted_def only_def)
  show ?thesis
    using check_stop_slow_single_line [OF a] check_stop_slow_single_line [OF b]
      check_stop_slow_single_line [OF c] a b d e f
    by blast
qed

text \<open>
  Claim C10. On every snapshot, also one with several asserted lines, \<open>check_stop\<close> and
  \<open>check_slow\<close> return the lowest station that has an asserted line of their kind (the
  left sensor before the centre ones, the centre ones before the right one), or -1
  when there is none; \<open>check_slow\<close> returns 1 exactly when one of the two centre slow
  lines is asserted and the left slow line is not; and both results lie in
  \<open>{-1, 0, 1, 2}\<close>.
\<close>

theorem check_stop_slow_lowest_station:
  "check_stop ps = lowest_or_none (asserted_stations stop_lines ps) \<and>
   check_slow ps = lowest_or_none (asserted_stations slow_lines ps) \<and>
   (check_slow ps = 1) =
     (\<not> asserted ps L_SLOW_PIN \<and> (asserted ps C_L_SLOW_PIN \<or> asserted ps C_R_SLOW_PIN)) \<and>
   check_stop ps \<in> {- 1, 0, 1, 2} \<and> check_slow ps \<in> {- 1, 0, 1, 2}"
  by (simp add: check_stop_asserted check_slow_asserted lowest_or_none_def
      asserted_stations_def stations_def)

theorem check_stop_slow_lowest_station_witness:
  "asserted_stations stop_lines (covered [R_STOP_PIN, L_STOP_PIN]) = [0, 2] \<and>
   check_stop (covered [R_STOP_PIN, L_STOP_PIN]) = 0 \<and>
   asserted_stations slow_lines (covered [R_SLOW_PIN, C_R_SLOW_PIN]) = [1, 2] \<and>
   check_slow (covered [R_SLOW_PIN, C_R_SLOW_PIN]) = 1 \<and>
   asserted_stations stop_lines (covered [R_SLOW_PIN, C_R_SLOW_PIN]) = [] \<and>
   check_stop (covered [R_SLOW_PIN, C_R_SLOW_PIN]) = - 1"
proof -
  have "asserted_stations stop_lines (covered [R_STOP_PIN, L_STOP_PIN]) = [0, 2]"
    and "asserted_stations slow_lines (covered [R_SLOW_PIN, C_R_SLOW_PIN]) = [1, 2]"
    and "asserted_stations stop_lines (covered [R_SLOW_PIN, C_R_SLOW_PIN]) = []"
    by (simp_all add: asserted_stations_def stations_def asserted_def covered_def)
  then show ?thesis
    using check_stop_slow_lowest_station [of "covered [R_STOP_PIN, L_STOP_PIN]"]
      check_stop_slow_lowest_station [of "covered [R_SLOW_PIN, C_R_SLOW_PIN]"]
    by (simp add: lowest_or_none_def)
qed

section \<open>Schedule\<close>

lemma sint_minutes:
  assumes "no_overflow h m"
  shows "sint (h * 60 + m) = minutes_since_midnight h m"
proof -
  have a: "sint (h * 60) = sint h * 60"
    using assms
    by (simp add: no_overflow_def fits_int16_def sint_word_ariths signed_take_bit_int_eq_self)
  have "sint (h * 60 + m) = signed_take_bit 15 (sint (h * 60) + sint m)"
    by (simp add: sint_word_ariths)
  also have "\<dots> = sint h * 60 + sint m"
    using assms by (simp add: a no_overflow_def fits_int16_def signed_take_bit_int_eq_self)
  finally show ?thesis
    by (simp add: minutes_since_midnight_def)
qed

text \<open>Every time of day has a minute count that the 16-bit computation represents.\<close>

lemma time_of_day_no_overflow:
  assumes "0 \<le>s h" and "h <s 24" and "0 \<le>s m" and "m <s 60"
  shows "no_overflow h m"
  using assms by (simp add: no_overflow_def fits_int16_def word_sle_eq word_sless_alt)

text \<open>
  Claim C8, as amended. For every schedule record and clock reading, \<open>check_schedule\<close>
  returns true when the schedule is disabled. When it is enabled, and the on time, the
  off time and the clock reading each have a minute count \<open>hour * 60 + minute\<close> that
  fits the 16-bit \<open>int\<close> of the code (as every time of day has), it returns true if
  and only if the on time is at or before the current time and the current time is
  before the off time, each in minutes since midnight. With the schedule on 6:00, off
  22:00, enabled, it returns true at 12:00, false at 23:00 and false at 5:59.
\<close>

theorem check_schedule_window:
  "(t ! 4 = 0 \<longrightarrow> check_schedule t h m) \<and>
   (t ! 4 \<noteq> 0 \<and> no_overflow h m \<and> no_overflow (t ! 0) (t ! 1) \<and> no_overflow (t ! 2) (t ! 3) \<longrightarrow>
      check_schedule t h m =
        (minutes_since_midnight (t ! 0) (t ! 1) \<le> minutes_since_midnight h m \<and>
         minutes_since_midnight h m < minutes_since_midnight (t ! 2) (t ! 3))) \<and>
   check_schedule [6, 0, 22, 0, 1] 12 0 \<and>
   \<not> check_schedule [6, 0, 22, 0, 1] 23 0 \<and>
   \<not> check_schedule [6, 0, 22, 0, 1] 5 59"
proof (intro conjI impI)
  show "check_schedule t h m" if "t ! 4 = 0"
    using that by (simp add: check_schedule_def)
  show "check_schedule t h m =
        (minutes_since_midnight (t ! 0) (t ! 1) \<le> minutes_since_midnight h m \<and>
         minutes_since_midnight h m < minutes_since_midnight (t ! 2) (t ! 3))"
    if "t ! 4 \<noteq> 0 \<and> no_overflow h m \<and> no_overflow (t ! 0) (t ! 1) \<and> no_overflow (t ! 2) (t ! 3)"
    using that
    by (simp add: check_schedule_def Let_def word_sle_eq word_sless_alt sint_minutes)
  show "check_schedule [6, 0, 22, 0, 1] 12 0"
    by (simp add: check_schedule_def word_sle_eq word_sless_alt)
  show "\<not> check_schedule [6, 0, 22, 0, 1] 23 0"
    by (simp add: check_schedule_def word_sle_eq word_sless_alt)
  show "\<not> check_schedule [6, 0, 22, 0, 1] 5 59"
    by (simp add: check_schedule_def word_sle_eq word_sless_alt)
qed

theorem check_schedule_window_witness:
  "[0, 0, 0, 0, 0 :: int16] ! 4 = 0 \<and> check_schedule [0, 0, 0, 0, 0] 3 30 \<and>
   [8, 30, 17, 45, 1 :: int16] ! 4 \<noteq> 0 \<and> no_overflow 17 44 \<and> no_overflow 8 30 \<and>
   no_overflow 17 45 \<and> minutes_since_midnight 8 30 = 510 \<and>
   minutes_since_midnight 17 44 = 1064 \<and> minutes_since_midnight 17 45 = 1065 \<and>
   check_schedule [8, 30, 17, 45, 1] 17 44"
proof -
  have a: "[0, 0, 0, 0, 0 :: int16] ! 4 = 0"
    by simp
  have b: "[8, 30, 17, 45, 1 :: int16] ! 4 \<noteq> 0 \<and> no_overflow 17 44 \<and>
      no_overflow ([8, 30, 17, 45, 1] ! 0) ([8, 30, 17, 45, 1] ! 1) \<and>
      no_overflow ([8, 30, 17, 45, 1] ! 2) ([8, 30, 17, 45, 1] ! 3)"
    by (simp add: no_overflow_def fits_int16_def)
  have c: "minutes_since_midnight 8 30 = 510 \<and> minutes_since_midnight 17 44 = 1064 \<and>
      minutes_since_midnight 17 45 = 1065"
    by (simp add: minutes_since_midnight_def)
  show ?thesis
    using check_schedule_window [of "[0, 0, 0, 0, 0]" 3 30]
      check_schedule_window [of "[8, 30, 17, 45, 1]" 17 44] a b c
    by simp
qed

text \<open>
  The claim as first stated fails. The menu stores the hours and minutes it is given
  without a range check. With the on time set to hour 600, the code computes
  \<open>600 * 60\<close> in 16 bits, which wraps to a negative number, and reports at 12:00 that
  the train is to run, although 36000 minutes are not at or before 720.
\<close>

theorem check_schedule_overflow_counterexample:
  "[600, 0, 22, 0, 1 :: int16] ! 4 \<noteq> 0 \<and>
   check_schedule [600, 0, 22, 0, 1] 12 0 \<and>
   minutes_since_midnight 600 0 = 36000 \<and>
   minutes_since_midnight 12 0 = 720 \<and>
   \<not> minutes_since_midnight 600 0 \<le> minutes_since_midnight 12 0 \<and>
   \<not> no_overflow 600 0"
  by (simp add: check_schedule_def minutes_since_midnight_def no_overflow_def fits_int16_def
      word_sle_eq word_sless_alt)

section \<open>Configuration defaults\<close>

lemma fill_station_wait_times_3:
  assumes "length w = 3"
  shows "fill_station_wait_times 0 w = [10, 10, w ! 2]"
proof -
  obtain a b c where "w = [a, b, c]"
    using assms by (auto simp: length_Suc_conv numeral_3_eq_3)
  then show ?thesis
    by (simp add: fill_station_wait_times.simps NUM_STOPS_def)
qed

text \<open>
  Claim C3, as the code has it. When the stored magic number does not match
  \<open>EE_MAGIC_NUMBER\<close>, \<open>setup()\<close> calls \<open>initEeprom\<close>, which sets the wait times of
  stations 0 and 1 to 10 and leaves the wait time of station 2 as it was, sets the
  schedule to on 06:00, off 22:00, enabled, and writes both and the magic number to the
  EEPROM. The loop over the slots stops before the last one.
\<close>

theorem initEeprom_skips_last_station:
  "ee_magic (eeprom st) \<noteq> EE_MAGIC_NUMBER \<Longrightarrow> length (station_wait_times st) = 3 \<Longrightarrow>
     station_wait_times (setup_fn st) = [10, 10, station_wait_times st ! 2] \<and>
     on_off_times (setup_fn st) = [6, 0, 22, 0, 1] \<and>
     eeprom (setup_fn st) =
       \<lparr>ee_station_wait_times = [10, 10, station_wait_times st ! 2],
        ee_on_off_times = [6, 0, 22, 0, 1], ee_magic = EE_MAGIC_NUMBER\<rparr>"
  by (simp add: setup_fn_def initEeprom_def Let_def fill_station_wait_times_3)

theorem initEeprom_skips_last_station_witness:
  "ee_magic (eeprom (power_on erased)) \<noteq> EE_MAGIC_NUMBER \<and>
   length (station_wait_times (power_on erased)) = 3 \<and>
   station_wait_times (setup_fn (power_on erased)) = [10, 10, 0] \<and>
   on_off_times (setup_fn (power_on erased)) = [6, 0, 22, 0, 1]"
proof -
  have a: "ee_magic (eeprom (power_on erased)) \<noteq> EE_MAGIC_NUMBER"
    by (simp add: power_on_def erased_def EE_MAGIC_NUMBER_def)
  have b: "length (station_wait_times (power_on erased)) = 3"
    by (simp add: power_on_def)
  have c: "station_wait_times (power_on erased) ! 2 = 0"
    by (simp add: power_on_def)
  show ?thesis
    using initEeprom_skips_last_station [OF a b] a b c by simp
qed

section \<open>Startup\<close>

lemma startup_poll_none:
  "check_stop ps = - 1 \<Longrightarrow>
     startup_poll ps st = st\<lparr>temp_station := - 1, current_station := - 1\<rparr>"
  by (simp add: startup_poll_def Let_def)

text \<open>When the recovery loop ends, the train was located or some poll found a sensor.\<close>

lemma startup_wait_returns:
  assumes "startup_wait smp n st = Some st'"
  shows "current_station st \<noteq> - 1 \<or> (\<exists>j. check_stop (smp j) \<noteq> - 1)"
proof (rule startup_wait.raw_induct
    [where P = "\<lambda>smp n st st'. current_station st \<noteq> - 1 \<or> (\<exists>j. check_stop (smp j) \<noteq> - 1)"])
  show "startup_wait smp n st = Some st'"
    by (fact assms)
next
  fix f :: "(nat \<Rightarrow> snapshot) \<Rightarrow> nat \<Rightarrow> train \<Rightarrow> train option"
  fix smp n st st'
  assume IH: "\<And>smp n st st'. f smp n st = Some st' \<Longrightarrow>
      current_station st \<noteq> - 1 \<or> (\<exists>j. check_stop (smp j) \<noteq> - 1)"
  assume eq: "(if current_station st = - 1
      then f smp (Suc n) (startup_poll (smp n) st) else Some st) = Some st'"
  show "current_station st \<noteq> - 1 \<or> (\<exists>j. check_stop (smp j) \<noteq> - 1)"
  proof (cases "current_station st = - 1 \<and> check_stop (smp n) = - 1")
    case True
    then have "f smp (Suc n) (st\<lparr>temp_station := - 1, current_station := - 1\<rparr>) = Some st'"
      using eq by (simp add: startup_poll_none)
    from IH [OF this] show ?thesis
      by simp
  next
    case False
    then show ?thesis
      by blast
  qed
qed

lemma startup_wait_diverges:
  assumes "\<forall>n. check_stop (smp n) = - 1" and "current_station st = - 1"
  shows "startup_wait smp n st = None"
proof (cases "startup_wait smp n st")
  case None
  then show ?thesis .
next
  case (Some st')
  from startup_wait_returns [OF this] assms show ?thesis
    by simp
qed

lemma startup_polls_none:
  assumes "\<forall>j<k. check_stop (smp j) = - 1" and "current_station st = - 1"
  shows "startup_polls k smp st = st\<lparr>temp_station := (if k = 0 then temp_station st else - 1)\<rparr>"
  using assms
proof (induction k)
  case 0
  then show ?case by simp
next
  case (Suc k)
  then show ?case by (simp add: startup_poll_none)
qed

lemma startup_wait_unroll:
  assumes "\<forall>j<k. check_stop (smp j) = - 1" and "current_station st = - 1"
  shows "startup_wait smp 0 st = startup_wait smp k (startup_polls k smp st)"
  using assms
proof (induction k)
  case 0
  then show ?case by simp
next
  case (Suc k)
  then have "current_station (startup_polls k smp st) = - 1"
    by (simp add: startup_polls_none)
  with Suc show ?case
    by (simp add: startup_wait_again)
qed

text \<open>
  A stop sensor found by a poll of the recovery loop: the left one sends the train to
  the right, the others send it to the left.
\<close>

lemma startup_poll_direction:
  "check_stop ps = 0 \<Longrightarrow>
     direction_left (startup_poll ps st) = False \<and> current_station (startup_poll ps st) = 0 \<and>
     program_state (startup_poll ps st) = STATE_ACCEL"
  "1 \<le> check_stop ps \<Longrightarrow>
     direction_left (startup_poll ps st) = True \<and>
     current_station (startup_poll ps st) = check_stop ps \<and>
     program_state (startup_poll ps st) = STATE_ACCEL"
  by (simp_all add: startup_poll_def Let_def)

text \<open>
  Claim C2, as the code has it. When the first sample of the startup state finds the
  left stop sensor covered, the pass sets \<open>current_station\<close> to 0 and goes to the
  accelerating state, but it sets \<open>direction_left\<close> to true, which is the direction to
  the left; when the first sample finds the centre or right stop sensor it sets
  \<open>current_station\<close> to that station and \<open>direction_left\<close> to false, the direction to
  the right. Only a sensor found later, by the recovery loop, gives the directions that
  the comments of both places name.
\<close>

theorem startup_first_sample_direction:
  "program_state st = STATE_STARTUP \<Longrightarrow> serial inp \<noteq> LeaveNow \<Longrightarrow>
     (check_stop (pins inp) = 0 \<longrightarrow>
        map_option program_state (loop inp st) = Some STATE_ACCEL \<and>
        map_option current_station (loop inp st) = Some 0 \<and>
        map_option direction_left (loop inp st) = Some True) \<and>
     (1 \<le> check_stop (pins inp) \<longrightarrow>
        map_option program_state (loop inp st) = Some STATE_ACCEL \<and>
        map_option current_station (loop inp st) = Some (check_stop (pins inp)) \<and>
        map_option direction_left (loop inp st) = Some False)"
  by (simp add: loop_def menu_input_keeps state_startup_def startup_first_def Let_def
      startup_wait_found direction_left_motor_output program_state_motor_output
      current_station_motor_output)

theorem startup_first_sample_direction_witness:
  "program_state factory_fresh = STATE_STARTUP \<and>
   serial (pass 0 (only L_STOP_PIN)) \<noteq> LeaveNow \<and>
   serial (pass 0 (only R_STOP_PIN)) \<noteq> LeaveNow \<and>
   check_stop (pins (pass 0 (only L_STOP_PIN))) = 0 \<and>
   map_option program_state (loop (pass 0 (only L_STOP_PIN)) factory_fresh) = Some STATE_ACCEL \<and>
   map_option current_station (loop (pass 0 (only L_STOP_PIN)) factory_fresh) = Some 0 \<and>
   map_option direction_left (loop (pass 0 (only L_STOP_PIN)) factory_fresh) = Some True \<and>
   1 \<le> check_stop (pins (pass 0 (only R_STOP_PIN))) \<and>
   map_option current_station (loop (pass 0 (only R_STOP_PIN)) factory_fresh) = Some 2 \<and>
   map_option direction_left (loop (pass 0 (only R_STOP_PIN)) factory_fresh) = Some False"
proof -
  have s: "program_state factory_fresh = STATE_STARTUP"
    by (simp add: passes setup_fn_def initEeprom_def Let_def EE_MAGIC_NUMBER_def)
  have i: "serial (pass 0 (only L_STOP_PIN)) \<noteq> LeaveNow"
    "serial (pass 0 (only R_STOP_PIN)) \<noteq> LeaveNow"
    by (simp_all add: passes)
  have l: "check_stop (pins (pass 0 (only L_STOP_PIN))) = 0"
    and r: "check_stop (pins (pass 0 (only R_STOP_PIN))) = 2"
    by (simp_all add: passes sensors)
  show ?thesis
    using startup_first_sample_direction [OF s i(1)]
      startup_first_sample_direction [OF s i(2)] s i l r
    by simp
qed

text \<open>
  Claim C9, as amended. On a pass that starts in the startup state, has no leave-now
  key, and finds no stop sensor covered at its first sample: for as long as the polls
  of the recovery loop find no stop sensor the loop is still running, the state is
  still the startup state and the train is still not located. When no poll ever finds
  one, the pass never ends, so no other state is entered; and a pass that ends has
  found a stop sensor at some poll.
\<close>

theorem startup_waits_for_stop_sensor:
  "program_state st = STATE_STARTUP \<Longrightarrow> serial inp \<noteq> LeaveNow \<Longrightarrow>
   check_stop (pins inp) = - 1 \<Longrightarrow>
     ((\<forall>j<k. check_stop (polls inp j) = - 1) \<longrightarrow>
        program_state (startup_polls k (polls inp) (startup_first inp (menu_input (serial inp) st)))
          = STATE_STARTUP \<and>
        current_station (startup_polls k (polls inp) (startup_first inp (menu_input (serial inp) st)))
          = - 1 \<and>
        startup_wait (polls inp) 0 (startup_first inp (menu_input (serial inp) st)) =
          startup_wait (polls inp) k
            (startup_polls k (polls inp) (startup_first inp (menu_input (serial inp) st)))) \<and>
     ((\<forall>j. check_stop (polls inp j) = - 1) \<longrightarrow> loop inp st = None) \<and>
     (loop inp st \<noteq> None \<longrightarrow> (\<exists>j. check_stop (polls inp j) \<noteq> - 1))"
proof -
  assume a: "program_state st = STATE_STARTUP" "serial inp \<noteq> LeaveNow"
    "check_stop (pins inp) = - 1"
  define st0 where "st0 = startup_first inp (menu_input (serial inp) st)"
  have st0: "current_station st0 = - 1" "program_state st0 = STATE_STARTUP"
    using a by (simp_all add: st0_def startup_first_def Let_def menu_input_keeps)
  have l: "loop inp st = map_option motor_output
      (map_option (\<lambda>s. s\<lparr>program_state := STATE_ACCEL, previousMillis := millis inp\<rparr>)
        (startup_wait (polls inp) 0 st0))"
    using a by (simp add: loop_def state_startup_def menu_input_keeps st0_def split: option.splits)
  have 1: "program_state (startup_polls k (polls inp) st0) = STATE_STARTUP \<and>
      current_station (startup_polls k (polls inp) st0) = - 1 \<and>
      startup_wait (polls inp) 0 st0 = startup_wait (polls inp) k (startup_polls k (polls inp) st0)"
    if "\<forall>j<k. check_stop (polls inp j) = - 1"
    using that st0 startup_wait_unroll [of k "polls inp" st0]
    by (simp add: startup_polls_none)
  have 2: "loop inp st = None" if "\<forall>j. check_stop (polls inp j) = - 1"
    using that st0 by (simp add: l startup_wait_diverges)
  have 3: "\<exists>j. check_stop (polls inp j) \<noteq> - 1" if "loop inp st \<noteq> None"
  proof -
    from that obtain s where "startup_wait (polls inp) 0 st0 = Some s"
      by (auto simp: l)
    from startup_wait_returns [OF this] st0 show ?thesis
      by simp
  qed
  show ?thesis
    using 1 2 3 unfolding st0_def by blast
qed

theorem startup_waits_for_stop_sensor_witness:
  "program_state factory_fresh = STATE_STARTUP \<and> serial quiet \<noteq> LeaveNow \<and>
   serial (moved_onto R_STOP_PIN) \<noteq> LeaveNow \<and> check_stop (pins quiet) = - 1 \<and>
   (\<forall>j. check_stop (polls quiet j) = - 1) \<and>
   loop quiet factory_fresh = None \<and>
   program_state (startup_polls 3 (polls quiet)
     (startup_first quiet (menu_input (serial quiet) factory_fresh))) = STATE_STARTUP \<and>
   current_station (startup_polls 3 (polls quiet)
     (startup_first quiet (menu_input (serial quiet) factory_fresh))) = - 1 \<and>
   check_stop (pins (moved_onto R_STOP_PIN)) = - 1 \<and>
   loop (moved_onto R_STOP_PIN) factory_fresh \<noteq> None \<and>
   check_stop (polls (moved_onto R_STOP_PIN) 2) \<noteq> - 1"
proof -
  have s: "program_state factory_fresh = STATE_STARTUP"
    by (simp add: passes setup_fn_def initEeprom_def Let_def EE_MAGIC_NUMBER_def)
  have i: "serial quiet \<noteq> LeaveNow" "serial (moved_onto R_STOP_PIN) \<noteq> LeaveNow"
    by (simp_all add: passes)
  have c: "check_stop (pins quiet) = - 1" "check_stop (pins (moved_onto R_STOP_PIN)) = - 1"
    by (simp_all add: passes sensors)
  have a: "\<forall>j. check_stop (polls quiet j) = - 1"
    by (simp add: passes sensors)
  then have b: "\<forall>j<3. check_stop (polls quiet j) = - 1"
    by simp
  have m: "loop (moved_onto R_STOP_PIN) factory_fresh \<noteq> None"
    by (simp add: steps passes sensors constants)
  have f: "check_stop (polls (moved_onto R_STOP_PIN) 2) \<noteq> - 1"
    by (simp add: passes sensors)
  show ?thesis
    using startup_waits_for_stop_sensor [OF s i(1) c(1), of 3]
      startup_waits_for_stop_sensor [OF s i(2) c(2), of 0] s i c a b m f
    by simp
qed

text \<open>
  The claim as first stated fails. The menu is read before the \<open>switch\<close>, and a
  leave-now key sets the state to accelerating and the speed to \<open>START_SPEED\<close>. So a
  pass that starts in the startup state with a leave-now key leaves the startup state
  with the motor driven, although no stop sensor was ever covered and the train was
  never located.
\<close>

theorem startup_leave_now_counterexample:
  "program_state factory_fresh = STATE_STARTUP \<and>
   serial (leave_now quiet) = LeaveNow \<and>
   pins (leave_now quiet) = all_clear \<and>
   polls (leave_now quiet) = never_covered \<and>
   check_stop all_clear = - 1 \<and>
   map_option program_state (loop (leave_now quiet) factory_fresh) = Some STATE_ACCEL \<and>
   map_option current_station (loop (leave_now quiet) factory_fresh) = Some 3 \<and>
   map_option motor_speed (loop (leave_now quiet) factory_fresh) = Some 10 \<and>
   map_option (duty MOTOR_RIGHT_PIN) (loop (leave_now quiet) factory_fresh) = Some 10"
proof -
  have "polls (leave_now quiet) = never_covered"
    by (rule ext) (simp add: passes never_covered_def)
  moreover have "program_state factory_fresh = STATE_STARTUP \<and>
      serial (leave_now quiet) = LeaveNow \<and> pins (leave_now quiet) = all_clear \<and>
      check_stop all_clear = - 1"
    by (simp add: steps passes check_stop_def digitalRead_def all_clear_def constants)
  moreover have "\<exists>st. loop (leave_now quiet) factory_fresh = Some st \<and>
      program_state st = STATE_ACCEL \<and> current_station st = 3 \<and> motor_speed st = 10 \<and>
      duty MOTOR_RIGHT_PIN st = 10"
    by (simp add: steps passes sensors constants duty_def)
  ultimately show ?thesis
    by auto
qed

section \<open>Emergency stop\<close>

lemma complement_bool_True: "complement_bool b = True"
  by (cases b) (simp_all add: complement_bool_def)

lemma reach_running_leftward:
  "\<exists>st. run full_speed_leftward factory_fresh = Some st \<and> program_state st = STATE_RUNNING
     \<and> direction_left st \<and> runMillis st = 15750"
  by (simp add: full_speed_leftward_def to_full_speed_def steps passes sensors constants)

text \<open>
  Claim C1, as the code has it. In the running state, once the time since the state
  was entered reaches \<open>RUN_MAX_TIMER\<close>, the pass goes to the stopped state and leaves
  \<open>direction_left\<close> true whatever it was before: the complement of a \<open>bool\<close> is never 0.
\<close>

theorem running_timeout_direction_left:
  "program_state st = STATE_RUNNING \<Longrightarrow> serial inp \<noteq> LeaveNow \<Longrightarrow>
   RUN_MAX_TIMER \<le> millis inp - runMillis st \<Longrightarrow>
     map_option program_state (loop inp st) = Some STATE_STOPPED \<and>
     map_option direction_left (loop inp st) = Some True"
  by (simp add: loop_def menu_input_keeps state_running_def emergency_stop_def
      complement_bool_True direction_left_motor_output program_state_motor_output)

theorem running_timeout_direction_left_witness:
  "map_option program_state (run full_speed_leftward factory_fresh) = Some STATE_RUNNING \<and>
   map_option direction_left (run full_speed_leftward factory_fresh) = Some True \<and>
   map_option runMillis (run full_speed_leftward factory_fresh) = Some 15750 \<and>
   serial (pass 305 all_clear) \<noteq> LeaveNow \<and>
   millis (pass 305 all_clear) - 15750 = RUN_MAX_TIMER \<and>
   map_option program_state (run (full_speed_leftward @ [pass 305 all_clear]) factory_fresh)
     = Some STATE_STOPPED \<and>
   map_option direction_left (run (full_speed_leftward @ [pass 305 all_clear]) factory_fresh)
     = Some True"
proof -
  obtain st where r: "run full_speed_leftward factory_fresh = Some st"
    and st: "program_state st = STATE_RUNNING" "direction_left st" "runMillis st = 15750"
    using reach_running_leftward by blast
  have i: "serial (pass 305 all_clear) \<noteq> LeaveNow"
    by (simp add: passes)
  have t: "millis (pass 305 all_clear) - 15750 = RUN_MAX_TIMER"
    by (simp add: passes RUN_MAX_TIMER_def)
  then have "RUN_MAX_TIMER \<le> millis (pass 305 all_clear) - runMillis st"
    by (simp add: st)
  from running_timeout_direction_left [OF st(1) i this] show ?thesis
    using st t i by (simp add: run_snoc [OF r] r)
qed

section \<open>Waiting\<close>

text \<open>The stopped state goes to sleep at the left terminus only.\<close>

lemma stopped_sleeps_at_left_terminus:
  "program_state (state_stopped inp st) = STATE_SLEEPING \<Longrightarrow> current_station st = 0"
  by (simp add: state_stopped_def Let_def split: if_splits)

lemma reach_middle_late:
  "\<exists>st. run (map (at_clock 21 59 58) to_middle_platform) factory_fresh = Some st \<and> program_state st = STATE_WAITING \<and>
     current_station st = 1 \<and> motor_speed st = 8 \<and> previousMillis st = 600 \<and>
     direction_left st \<and> on_off_times st = [6, 0, 22, 0, 1] \<and> station_wait_times st = [10, 10, 0]"
  by (simp add: to_middle_platform_def steps passes sensors constants)

text \<open>
  Claim C5, as the code has it. In the waiting state, when \<open>check_schedule\<close> reports
  that the train is not to run, the pass cuts the motor power to zero and goes to the
  sleeping state at whatever station the train waits, the middle station included.
\<close>

theorem waiting_sleeps_at_any_station:
  "program_state st = STATE_WAITING \<Longrightarrow> serial inp = NoInput \<Longrightarrow>
   \<not> check_schedule (on_off_times st) (hour inp) (minute inp) \<Longrightarrow>
     map_option program_state (loop inp st) = Some STATE_SLEEPING \<and>
     map_option motor_speed (loop inp st) = Some 0 \<and>
     map_option current_station (loop inp st) = Some (current_station st)"
  by (simp add: loop_def state_waiting_def Let_def
      program_state_motor_output motor_speed_motor_output current_station_motor_output)

theorem waiting_sleeps_at_any_station_witness:
  "map_option program_state (run (map (at_clock 21 59 58) to_middle_platform) factory_fresh) = Some STATE_WAITING \<and>
   map_option current_station (run (map (at_clock 21 59 58) to_middle_platform) factory_fresh) = Some 1 \<and>
   map_option on_off_times (run (map (at_clock 21 59 58) to_middle_platform) factory_fresh)
     = Some [6, 0, 22, 0, 1] \<and>
   serial (at_clock 22 0 0 (pass 20 all_clear)) = NoInput \<and>
   \<not> check_schedule [6, 0, 22, 0, 1] (hour (at_clock 22 0 0 (pass 20 all_clear)))
      (minute (at_clock 22 0 0 (pass 20 all_clear))) \<and>
   map_option program_state
     (run (map (at_clock 21 59 58) to_middle_platform @ [at_clock 22 0 0 (pass 20 all_clear)]) factory_fresh) = Some STATE_SLEEPING \<and>
   map_option motor_speed
     (run (map (at_clock 21 59 58) to_middle_platform @ [at_clock 22 0 0 (pass 20 all_clear)]) factory_fresh) = Some 0 \<and>
   map_option current_station
     (run (map (at_clock 21 59 58) to_middle_platform @ [at_clock 22 0 0 (pass 20 all_clear)]) factory_fresh) = Some 1"
proof -
  obtain st where r: "run (map (at_clock 21 59 58) to_middle_platform) factory_fresh = Some st"
    and st: "program_state st = STATE_WAITING" "current_station st = 1"
      "on_off_times st = [6, 0, 22, 0, 1]"
    using reach_middle_late by blast
  have i: "serial (at_clock 22 0 0 (pass 20 all_clear)) = NoInput"
    by (simp add: passes)
  have o: "\<not> check_schedule (on_off_times st) (hour (at_clock 22 0 0 (pass 20 all_clear)))
      (minute (at_clock 22 0 0 (pass 20 all_clear)))"
    by (simp add: st passes check_schedule_def word_sle_eq word_sless_alt)
  show ?thesis
    using waiting_sleeps_at_any_station [OF st(1) i o] st i o
    by (simp add: run_snoc [OF r] r)
qed

section \<open>Speed range of the control loop\<close>

lemma quarter_steps_iff: "quarter_steps x = (\<exists>k::int. x = of_int k / 4)"
proof
  assume "quarter_steps x"
  then have e: "of_int \<lfloor>x * 4\<rfloor> = x * 4"
    unfolding quarter_steps_def .
  have "x = x * 4 / 4"
    by simp
  also have "\<dots> = of_int \<lfloor>x * 4\<rfloor> / 4"
    by (simp only: e)
  finally show "\<exists>k::int. x = of_int k / 4" ..
next
  assume "\<exists>k::int. x = of_int k / 4"
  then obtain k :: int where "x = of_int k / 4" ..
  then show "quarter_steps x"
    by (simp add: quarter_steps_def)
qed

lemma quarter_steps_of_int: "quarter_steps (of_int n)"
  unfolding quarter_steps_iff by (rule exI [of _ "4 * n"]) simp

lemma quarter_steps_0: "quarter_steps 0"
  using quarter_steps_of_int [of 0] by simp

lemma quarter_steps_numeral: "quarter_steps (numeral n)"
  using quarter_steps_of_int [of "numeral n"] by simp

lemma quarter_steps_up: "quarter_steps x \<Longrightarrow> quarter_steps (x + 1 / 4)"
  unfolding quarter_steps_iff
proof (elim exE)
  fix k :: int assume "x = of_int k / 4"
  then have "x + 1 / 4 = of_int (k + 1) / 4" by simp
  then show "\<exists>k::int. x + 1 / 4 = of_int k / 4" ..
qed

lemma quarter_steps_down: "quarter_steps x \<Longrightarrow> quarter_steps (x - 1)"
  unfolding quarter_steps_iff
proof (elim exE)
  fix k :: int assume "x = of_int k / 4"
  then have "x - 1 = of_int (k - 4) / 4" by simp
  then show "\<exists>k::int. x - 1 = of_int k / 4" ..
qed

lemma quarter_steps_below:
  assumes "quarter_steps x" and "x < of_int n"
  shows "x + 1 / 4 \<le> of_int n"
proof -
  from assms(1) obtain k :: int where k: "x = of_int k / 4"
    unfolding quarter_steps_iff ..
  with assms(2) have "(of_int k :: rat) < of_int (4 * n)"
    by simp
  then have "k < 4 * n"
    by (simp only: of_int_less_iff)
  then have "k + 1 \<le> 4 * n"
    by simp
  then have "(of_int (k + 1) :: rat) \<le> of_int (4 * n)"
    by (simp only: of_int_le_iff)
  with k show ?thesis
    by simp
qed

lemma speed_in_range_set:
  "quarter_steps v \<Longrightarrow> 0 \<le> v \<Longrightarrow> v \<le> of_int MAX_SPEED \<Longrightarrow> motor_speed st = v \<Longrightarrow> speed_in_range st"
  by (simp add: speed_in_range_def)

lemma speed_in_range_cong:
  "motor_speed st' = motor_speed st \<Longrightarrow> speed_in_range st' = speed_in_range st"
  by (simp add: speed_in_range_def)

lemma speed_in_range_consts:
  "speed_in_range (st\<lparr>motor_speed := 0\<rparr>)"
  "speed_in_range (st\<lparr>motor_speed := of_int IDLE_SPEED\<rparr>)"
  "speed_in_range (st\<lparr>motor_speed := of_int START_SPEED\<rparr>)"
  "speed_in_range (st\<lparr>motor_speed := of_int MIN_SPEED\<rparr>)"
  by (simp_all add: speed_in_range_def quarter_steps_numeral quarter_steps_0
      IDLE_SPEED_def START_SPEED_def MIN_SPEED_def MAX_SPEED_def)

lemma speed_in_range_menu_input: "speed_in_range st \<Longrightarrow> speed_in_range (menu_input m st)"
  using speed_in_range_consts(3) [of st]
  by (cases m) (simp_all add: editStations_def setOnOffTime_def Let_def speed_in_range_def)

lemma speed_in_range_motor_output: "speed_in_range (motor_output st) = speed_in_range st"
  by (simp add: speed_in_range_def motor_speed_motor_output)

lemma speed_in_range_sleeping: "speed_in_range st \<Longrightarrow> speed_in_range (state_sleeping inp st)"
  by (simp add: state_sleeping_def Let_def speed_in_range_def)

lemma speed_in_range_startup_first: "speed_in_range st \<Longrightarrow> speed_in_range (startup_first inp st)"
  using speed_in_range_consts(4) [of st]
  by (simp add: startup_first_def Let_def speed_in_range_def)

lemma speed_in_range_startup_poll: "speed_in_range st \<Longrightarrow> speed_in_range (startup_poll ps st)"
  using speed_in_range_consts(4) [of st]
  by (simp add: startup_poll_def Let_def speed_in_range_def)

lemma speed_in_range_startup_wait:
  assumes "startup_wait smp n st = Some st'"
  shows "speed_in_range st \<longrightarrow> speed_in_range st'"
proof (rule startup_wait.raw_induct
    [where P = "\<lambda>smp n st st'. speed_in_range st \<longrightarrow> speed_in_range st'"])
  show "startup_wait smp n st = Some st'"
    by (fact assms)
next
  fix f :: "(nat \<Rightarrow> snapshot) \<Rightarrow> nat \<Rightarrow> train \<Rightarrow> train option"
  fix smp n st st'
  assume IH: "\<And>smp n st st'. f smp n st = Some st' \<Longrightarrow> speed_in_range st \<longrightarrow> speed_in_range st'"
  assume eq: "(if current_station st = - 1
      then f smp (Suc n) (startup_poll (smp n) st) else Some st) = Some st'"
  show "speed_in_range st \<longrightarrow> speed_in_range st'"
  proof (cases "current_station st = - 1")
    case True
    with eq have "f smp (Suc n) (startup_poll (smp n) st) = Some st'"
      by simp
    from IH [OF this] show ?thesis
      by (simp add: speed_in_range_startup_poll)
  next
    case False
    with eq show ?thesis
      by simp
  qed
qed

lemma speed_in_range_startup:
  "state_startup inp st = Some st' \<Longrightarrow> speed_in_range st \<Longrightarrow> speed_in_range st'"
proof -
  assume a: "state_startup inp st = Some st'" and b: "speed_in_range st"
  from a obtain st1 where w: "startup_wait (polls inp) 0 (startup_first inp st) = Some st1"
    and st': "st' = st1\<lparr>program_state := STATE_ACCEL, previousMillis := millis inp\<rparr>"
    by (auto simp: state_startup_def split: option.splits)
  from speed_in_range_startup_wait [OF w] b have "speed_in_range st1"
    by (simp add: speed_in_range_startup_first)
  then show "speed_in_range st'"
    by (simp add: st' speed_in_range_def)
qed

lemma speed_in_range_waiting: "speed_in_range (state_waiting inp st)"
  using speed_in_range_consts [of st]
  by (simp add: state_waiting_def Let_def speed_in_range_def)

lemma accel_speed_cases:
  "motor_speed (accel_speed inp st) = motor_speed st \<or>
   (motor_speed st < of_int MAX_SPEED \<and> motor_speed (accel_speed inp st) = motor_speed st + 1 / 4)"
  by (simp add: accel_speed_def)

lemma motor_speed_accel_stop: "motor_speed (accel_stop inp st) = motor_speed st"
  by (simp add: accel_stop_def Let_def)

lemma state_accel_cases:
  "motor_speed (state_accel inp st) = motor_speed st \<or>
   (motor_speed st < of_int MAX_SPEED \<and> motor_speed (state_accel inp st) = motor_speed st + 1 / 4)"
  using accel_speed_cases [of inp "accel_stop inp (st\<lparr>check_result := check_slow (pins inp)\<rparr>)"]
  by (simp add: state_accel_def Let_def motor_speed_accel_stop)

lemma speed_in_range_accel: "speed_in_range st \<Longrightarrow> speed_in_range (state_accel inp st)"
  using state_accel_cases [of inp st]
  by (auto simp: speed_in_range_def quarter_steps_up quarter_steps_below)

lemma motor_speed_running: "motor_speed (state_running inp st) = motor_speed st"
  by (simp add: state_running_def emergency_stop_def running_stop_def running_slow_def Let_def)

lemma deaccel_speed_cases:
  "motor_speed (deaccel_speed inp st) = motor_speed st \<or>
   (of_int MIN_SPEED < motor_speed st \<and> motor_speed (deaccel_speed inp st) = motor_speed st - 1)"
  by (simp add: deaccel_speed_def Let_def)

lemma motor_speed_center_slow_stop: "motor_speed (fst (center_slow_stop inp st)) = motor_speed st"
  by (simp add: center_slow_stop_def Let_def)

lemma state_deaccel_cases:
  "motor_speed (state_deaccel inp st) = motor_speed st \<or>
   (of_int MIN_SPEED < motor_speed st \<and> motor_speed (state_deaccel inp st) = motor_speed st - 1)"
proof -
  let ?st1 = "st\<lparr>check_result := check_stop (pins inp)\<rparr>"
  have "motor_speed (deaccel_speed inp (fst (center_slow_stop inp ?st1))) = motor_speed st \<or>
      (of_int MIN_SPEED < motor_speed st \<and>
       motor_speed (deaccel_speed inp (fst (center_slow_stop inp ?st1))) = motor_speed st - 1)"
    using deaccel_speed_cases [of inp "fst (center_slow_stop inp ?st1)"]
    by (simp add: motor_speed_center_slow_stop)
  moreover have "motor_speed (deaccel_speed inp ?st1) = motor_speed st \<or>
      (of_int MIN_SPEED < motor_speed st \<and>
       motor_speed (deaccel_speed inp ?st1) = motor_speed st - 1)"
    using deaccel_speed_cases [of inp ?st1] by simp
  ultimately show ?thesis
    using motor_speed_center_slow_stop [of inp ?st1]
    by (auto simp: state_deaccel_def Let_def split: prod.splits)
qed

lemma speed_in_range_deaccel: "speed_in_range st \<Longrightarrow> speed_in_range (state_deaccel inp st)"
  using state_deaccel_cases [of inp st]
  by (auto simp: speed_in_range_def quarter_steps_down MIN_SPEED_def)

lemma motor_speed_slow: "motor_speed (state_slow inp st) = motor_speed st"
  by (simp add: state_slow_def emergency_stop_def Let_def motor_speed_center_slow_stop)

lemma speed_in_range_stopped: "speed_in_range (state_stopped inp st)"
  using speed_in_range_consts(2) [of st]
  by (simp add: state_stopped_def Let_def speed_in_range_def)

lemma speed_in_range_state_machine:
  "state_machine inp st = Some st' \<Longrightarrow> speed_in_range st \<Longrightarrow> speed_in_range st'"
  by (cases "program_state st")
    (auto simp: speed_in_range_sleeping speed_in_range_startup speed_in_range_waiting
      speed_in_range_accel speed_in_range_deaccel speed_in_range_stopped
      speed_in_range_cong [OF motor_speed_running] speed_in_range_cong [OF motor_speed_slow])

lemma speed_in_range_loop:
  "loop inp st = Some st' \<Longrightarrow> speed_in_range st \<Longrightarrow> speed_in_range st'"
  using speed_in_range_state_machine [of inp "menu_input (serial inp) st"]
  by (auto simp: loop_def speed_in_range_menu_input speed_in_range_motor_output)

lemma speed_in_range_run:
  "run inps st = Some st' \<Longrightarrow> speed_in_range st \<Longrightarrow> speed_in_range st'"
proof (induction inps arbitrary: st)
  case Nil
  then show ?case by simp
next
  case (Cons inp inps)
  then show ?case
    by (auto split: option.splits dest: speed_in_range_loop)
qed

lemma motor_speed_setup_fn: "motor_speed (setup_fn st) = motor_speed st"
  by (simp add: setup_fn_def initEeprom_def Let_def)

lemma speed_in_range_power_on: "speed_in_range (setup_fn (power_on ee))"
  by (simp add: speed_in_range_def motor_speed_setup_fn power_on_def quarter_steps_0 MAX_SPEED_def)

lemma reach_middle:
  "\<exists>st. run to_middle_platform factory_fresh = Some st \<and> program_state st = STATE_WAITING \<and>
     current_station st = 1 \<and> motor_speed st = 8"
  by (simp add: to_middle_platform_def steps passes sensors constants)

text \<open>
  Claim C4, as amended. In every state that the control loop reaches from power-on,
  \<open>motor_speed\<close> lies within 0 and \<open>MAX_SPEED\<close>. A pass that starts in the accelerating
  state and has no leave-now key leaves the speed as it is or raises it by 0.25; a pass
  that starts in the decelerating state and has no leave-now key leaves the speed as it
  is or lowers it by 1. (The speed of a moving train can lie below \<open>MIN_SPEED\<close>: a
  departure starts at \<open>START_SPEED\<close>, which is 10, and \<open>MIN_SPEED\<close> is 15.)
\<close>

theorem speed_range_and_ramps:
  "(run inps (setup_fn (power_on ee)) = Some st \<longrightarrow>
      0 \<le> motor_speed st \<and> motor_speed st \<le> of_int MAX_SPEED) \<and>
   (program_state st = STATE_ACCEL \<and> serial inp \<noteq> LeaveNow \<and> loop inp st = Some st' \<longrightarrow>
      motor_speed st' = motor_speed st \<or> motor_speed st' = motor_speed st + 1 / 4) \<and>
   (program_state st = STATE_DEACCEL \<and> serial inp \<noteq> LeaveNow \<and> loop inp st = Some st' \<longrightarrow>
      motor_speed st' = motor_speed st \<or> motor_speed st' = motor_speed st - 1)"
proof (intro conjI impI)
  assume "run inps (setup_fn (power_on ee)) = Some st"
  from speed_in_range_run [OF this speed_in_range_power_on]
  show "0 \<le> motor_speed st" and "motor_speed st \<le> of_int MAX_SPEED"
    by (simp_all add: speed_in_range_def)
next
  assume "program_state st = STATE_ACCEL \<and> serial inp \<noteq> LeaveNow \<and> loop inp st = Some st'"
  then show "motor_speed st' = motor_speed st \<or> motor_speed st' = motor_speed st + 1 / 4"
    using state_accel_cases [of inp "menu_input (serial inp) st"]
    by (auto simp: loop_def menu_input_keeps motor_speed_motor_output)
next
  assume "program_state st = STATE_DEACCEL \<and> serial inp \<noteq> LeaveNow \<and> loop inp st = Some st'"
  then show "motor_speed st' = motor_speed st \<or> motor_speed st' = motor_speed st - 1"
    using state_deaccel_cases [of inp "menu_input (serial inp) st"]
    by (auto simp: loop_def menu_input_keeps motor_speed_motor_output)
qed

theorem speed_range_and_ramps_witness:
  "(\<exists>st. run to_middle_platform (setup_fn (power_on erased)) = Some st \<and>
      motor_speed st = 8 \<and> 0 \<le> motor_speed st \<and> motor_speed st \<le> of_int MAX_SPEED) \<and>
   (\<exists>st st'. run [moved_onto R_STOP_PIN] factory_fresh = Some st \<and>
      program_state st = STATE_ACCEL \<and> serial (pass 1 all_clear) \<noteq> LeaveNow \<and>
      loop (pass 1 all_clear) st = Some st' \<and> motor_speed st = 15 \<and>
      motor_speed st' = motor_speed st + 1 / 4) \<and>
   (\<exists>st st'. run [moved_onto R_STOP_PIN, pass 1 all_clear, pass 2 (only C_R_SLOW_PIN)]
        factory_fresh = Some st \<and>
      program_state st = STATE_DEACCEL \<and> serial (pass 3 (only C_R_SLOW_PIN)) \<noteq> LeaveNow \<and>
      loop (pass 3 (only C_R_SLOW_PIN)) st = Some st' \<and> motor_speed st = 61 / 4 \<and>
      motor_speed st' = motor_speed st - 1)"
proof (intro conjI)
  obtain st where r: "run to_middle_platform (setup_fn (power_on erased)) = Some st"
    and s: "motor_speed st = 8"
    using reach_middle unfolding factory_fresh_def by blast
  from speed_range_and_ramps [of to_middle_platform erased st] r s
  show "\<exists>st. run to_middle_platform (setup_fn (power_on erased)) = Some st \<and>
      motor_speed st = 8 \<and> 0 \<le> motor_speed st \<and> motor_speed st \<le> of_int MAX_SPEED"
    by simp
next
  have "\<exists>st st'. run [moved_onto R_STOP_PIN] factory_fresh = Some st \<and>
      program_state st = STATE_ACCEL \<and> serial (pass 1 all_clear) \<noteq> LeaveNow \<and>
      loop (pass 1 all_clear) st = Some st' \<and> motor_speed st = 15 \<and>
      motor_speed st' = 61 / 4"
    by (simp add: steps passes sensors constants)
  then obtain st st' where h: "run [moved_onto R_STOP_PIN] factory_fresh = Some st"
     "program_state st = STATE_ACCEL" "serial (pass 1 all_clear) \<noteq> LeaveNow"
     "loop (pass 1 all_clear) st = Some st'" "motor_speed st = 15" "motor_speed st' = 61 / 4"
    by blast
  from speed_range_and_ramps [of _ _ st "pass 1 all_clear" st'] h
  show "\<exists>st st'. run [moved_onto R_STOP_PIN] factory_fresh = Some st \<and>
      program_state st = STATE_ACCEL \<and> serial (pass 1 all_clear) \<noteq> LeaveNow \<and>
      loop (pass 1 all_clear) st = Some st' \<and> motor_speed st = 15 \<and>
      motor_speed st' = motor_speed st + 1 / 4"
    by auto
next
  have "\<exists>st st'. run [moved_onto R_STOP_PIN, pass 1 all_clear, pass 2 (only C_R_SLOW_PIN)]
        factory_fresh = Some st \<and>
      program_state st = STATE_DEACCEL \<and> serial (pass 3 (only C_R_SLOW_PIN)) \<noteq> LeaveNow \<and>
      loop (pass 3 (only C_R_SLOW_PIN)) st = Some st' \<and> motor_speed st = 61 / 4 \<and>
      motor_speed st' = 57 / 4"
    by (simp add: steps passes sensors constants)
  then obtain st st' where h:
     "run [moved_onto R_STOP_PIN, pass 1 all_clear, pass 2 (only C_R_SLOW_PIN)]
        factory_fresh = Some st"
     "program_state st = STATE_DEACCEL" "serial (pass 3 (only C_R_SLOW_PIN)) \<noteq> LeaveNow"
     "loop (pass 3 (only C_R_SLOW_PIN)) st = Some st'" "motor_speed st = 61 / 4"
     "motor_speed st' = 57 / 4"
    by blast
  from speed_range_and_ramps [of _ _ st "pass 3 (only C_R_SLOW_PIN)" st'] h
  show "\<exists>st st'. run [moved_onto R_STOP_PIN, pass 1 all_clear, pass 2 (only C_R_SLOW_PIN)]
        factory_fresh = Some st \<and>
      program_state st = STATE_DEACCEL \<and> serial (pass 3 (only C_R_SLOW_PIN)) \<noteq> LeaveNow \<and>
      loop (pass 3 (only C_R_SLOW_PIN)) st = Some st' \<and> motor_speed st = 61 / 4 \<and>
      motor_speed st' = motor_speed st - 1"
    by auto
qed

text \<open>
  The claim as first stated fails. The train that waited at the middle station departs
  in the accelerating state at \<open>START_SPEED\<close>, below \<open>MIN_SPEED\<close> and not the idle
  speed; and a leave-now key typed while the train accelerates at 15 sets the speed
  back to \<open>START_SPEED\<close>, from which the same pass ticks it to 10.25.
\<close>

theorem speed_below_min_speed_counterexample:
  "map_option program_state (run (to_middle_platform @ [pass 100 all_clear]) factory_fresh)
     = Some STATE_ACCEL \<and>
   map_option motor_speed (run (to_middle_platform @ [pass 100 all_clear]) factory_fresh)
     = Some (of_int START_SPEED) \<and>
   (of_int START_SPEED :: rat) < of_int MIN_SPEED \<and>
   (of_int START_SPEED :: rat) \<noteq> of_int IDLE_SPEED \<and>
   map_option program_state (run [moved_onto R_STOP_PIN] factory_fresh) = Some STATE_ACCEL \<and>
   map_option motor_speed (run [moved_onto R_STOP_PIN] factory_fresh) = Some 15 \<and>
   map_option program_state
     (run [moved_onto R_STOP_PIN, leave_now (pass 1 all_clear)] factory_fresh) = Some STATE_ACCEL \<and>
   map_option motor_speed
     (run [moved_onto R_STOP_PIN, leave_now (pass 1 all_clear)] factory_fresh) = Some (41 / 4)"
  by (simp add: to_middle_platform_def steps passes sensors constants)

section \<open>The motor channels\<close>

lemma float_to_int_of_int: "float_to_int (of_int n) = n"
  by (simp add: float_to_int_def)

lemma float_to_int_zero_iff: "0 \<le> x \<Longrightarrow> (float_to_int x \<noteq> 0) = (1 \<le> x)"
  by (simp add: float_to_int_def floor_eq_iff not_less)

lemma reach_running_rightward:
  "\<exists>st. run full_speed_rightward factory_fresh = Some st \<and> program_state st = STATE_RUNNING
     \<and> \<not> direction_left st \<and> runMillis st = 15750 \<and> motor_speed st = 41 \<and>
     prev_motor_speed st = 41 \<and> duty MOTOR_RIGHT_PIN st = 41 \<and> duty MOTOR_LEFT_PIN st = 0"
  by (simp add: full_speed_rightward_def to_full_speed_def steps passes sensors constants duty_def)

lemma emergency_stop_no_write:
  assumes "program_state st = STATE_RUNNING" and "RUN_MAX_TIMER \<le> millis inp - runMillis st"
    and "serial inp = NoInput" and "motor_speed st = of_int (prev_motor_speed st)"
  shows "loop inp st = Some (st\<lparr>program_state := STATE_STOPPED, direction_left := True\<rparr>)"
  using assms
  by (simp add: loop_def state_running_def emergency_stop_def complement_bool_True motor_output_def)

text \<open>
  Claim C6, as amended. A pass writes to the motor channels whenever the whole part of
  \<open>motor_speed\<close> differs from \<open>prev_motor_speed\<close>, and it writes nothing when
  \<open>motor_speed\<close> equals \<open>prev_motor_speed\<close>, whether or not \<open>direction_left\<close> has changed.
  After every write the channel that \<open>direction_left\<close> selects carries the whole part of
  \<open>motor_speed\<close> and the other channel carries zero; the whole part of a speed that is
  not negative is other than zero exactly when the speed is at least 1.
\<close>

theorem motor_output_channels:
  "(float_to_int (motor_speed st) \<noteq> prev_motor_speed st \<longrightarrow>
      motor_log (motor_output st) =
        (idle_pin st, 0) # (drive_pin st, float_to_int (motor_speed st)) # motor_log st) \<and>
   (motor_speed st = of_int (prev_motor_speed st) \<longrightarrow> motor_output st = st) \<and>
   (motor_log (motor_output st) \<noteq> motor_log st \<longrightarrow>
      duty (drive_pin st) (motor_output st) = float_to_int (motor_speed st) \<and>
      duty (idle_pin st) (motor_output st) = 0 \<and>
      drive_pin (motor_output st) = drive_pin st) \<and>
   (0 \<le> motor_speed st \<longrightarrow> (float_to_int (motor_speed st) \<noteq> 0) = (1 \<le> motor_speed st))"
proof (intro conjI impI)
  assume "float_to_int (motor_speed st) \<noteq> prev_motor_speed st"
  then have "motor_speed st \<noteq> of_int (prev_motor_speed st)"
    using float_to_int_of_int by metis
  then show "motor_log (motor_output st) =
      (idle_pin st, 0) # (drive_pin st, float_to_int (motor_speed st)) # motor_log st"
    by (simp add: motor_output_def analogWrite_def Let_def idle_pin_def drive_pin_def)
next
  assume "motor_speed st = of_int (prev_motor_speed st)"
  then show "motor_output st = st"
    by (simp add: motor_output_def)
next
  assume a: "motor_log (motor_output st) \<noteq> motor_log st"
  then have "motor_speed st \<noteq> of_int (prev_motor_speed st)"
    by (auto simp: motor_output_def)
  then show "duty (drive_pin st) (motor_output st) = float_to_int (motor_speed st)"
    and "duty (idle_pin st) (motor_output st) = 0"
    by (simp_all add: motor_output_def analogWrite_def Let_def idle_pin_def drive_pin_def duty_def)
  show "drive_pin (motor_output st) = drive_pin st"
    by (simp add: drive_pin_def direction_left_motor_output)
next
  assume "0 \<le> motor_speed st"
  then show "(float_to_int (motor_speed st) \<noteq> 0) = (1 \<le> motor_speed st)"
    by (rule float_to_int_zero_iff)
qed

theorem motor_output_channels_witness:
  "float_to_int (motor_speed (menu_input LeaveNow factory_fresh))
     \<noteq> prev_motor_speed (menu_input LeaveNow factory_fresh) \<and>
   motor_log (motor_output (menu_input LeaveNow factory_fresh))
     = [(MOTOR_LEFT_PIN, 0), (MOTOR_RIGHT_PIN, 10)] \<and>
   motor_log (motor_output (menu_input LeaveNow factory_fresh))
     \<noteq> motor_log (menu_input LeaveNow factory_fresh) \<and>
   float_to_int (motor_speed (menu_input LeaveNow factory_fresh)) \<noteq> 0 \<and>
   duty MOTOR_RIGHT_PIN (motor_output (menu_input LeaveNow factory_fresh)) = 10 \<and>
   duty MOTOR_LEFT_PIN (motor_output (menu_input LeaveNow factory_fresh)) = 0 \<and>
   motor_speed factory_fresh = of_int (prev_motor_speed factory_fresh) \<and>
   motor_output factory_fresh = factory_fresh \<and>
   0 \<le> motor_speed (menu_input LeaveNow factory_fresh) \<and>
   1 \<le> motor_speed (menu_input LeaveNow factory_fresh)"
proof -
  let ?s = "menu_input LeaveNow factory_fresh"
  have f: "motor_speed ?s = 10" "prev_motor_speed ?s = 0" "direction_left ?s = False"
    "motor_log ?s = []" "motor_speed factory_fresh = 0" "prev_motor_speed factory_fresh = 0"
    by (simp_all add: passes setup_fn_def initEeprom_def Let_def constants)
  have g: "float_to_int (motor_speed ?s) = 10"
    by (simp add: float_to_int_def constants)
  show ?thesis
    using motor_output_channels [of ?s] motor_output_channels [of factory_fresh] f g
    by (simp add: drive_pin_def idle_pin_def constants)
qed

text \<open>
  The claim as first stated fails. The train found on the left stop sensor at power-on
  starts from speed 0; after its first tick the speed is 0.25 and the pass writes 0 to
  both channels. The train driven to the right at full speed is stopped after 30
  seconds; that pass turns \<open>direction_left\<close> from false to true and writes nothing, so
  that the right channel still carries 41.
\<close>

theorem motor_output_counterexample:
  "map_option motor_log (run [pass 0 (only L_STOP_PIN)] factory_fresh) = Some [] \<and>
   map_option motor_log (run [pass 0 (only L_STOP_PIN), pass 1 all_clear] factory_fresh)
     = Some [(MOTOR_RIGHT_PIN, 0), (MOTOR_LEFT_PIN, 0)] \<and>
   map_option (duty MOTOR_LEFT_PIN) (run [pass 0 (only L_STOP_PIN), pass 1 all_clear] factory_fresh)
     = Some 0 \<and>
   map_option (duty MOTOR_RIGHT_PIN) (run [pass 0 (only L_STOP_PIN), pass 1 all_clear] factory_fresh)
     = Some 0 \<and>
   map_option direction_left (run full_speed_rightward factory_fresh) = Some False \<and>
   map_option motor_speed (run full_speed_rightward factory_fresh) = Some 41 \<and>
   map_option direction_left (run (full_speed_rightward @ [pass 305 all_clear]) factory_fresh)
     = Some True \<and>
   map_option motor_speed (run (full_speed_rightward @ [pass 305 all_clear]) factory_fresh)
     = Some 41 \<and>
   map_option motor_log (run (full_speed_rightward @ [pass 305 all_clear]) factory_fresh)
     = map_option motor_log (run full_speed_rightward factory_fresh) \<and>
   map_option (duty MOTOR_RIGHT_PIN) (run (full_speed_rightward @ [pass 305 all_clear]) factory_fresh)
     = Some 41 \<and>
   map_option (duty MOTOR_LEFT_PIN) (run (full_speed_rightward @ [pass 305 all_clear]) factory_fresh)
     = Some 0"
proof -
  have a: "map_option motor_log (run [pass 0 (only L_STOP_PIN)] factory_fresh) = Some []"
    by (simp add: steps passes sensors constants)
  have b: "\<exists>st. run [pass 0 (only L_STOP_PIN), pass 1 all_clear] factory_fresh = Some st \<and>
      motor_log st = [(MOTOR_RIGHT_PIN, 0), (MOTOR_LEFT_PIN, 0)] \<and>
      duty MOTOR_LEFT_PIN st = 0 \<and> duty MOTOR_RIGHT_PIN st = 0"
    by (simp add: steps passes sensors constants duty_def)
  obtain st where r: "run full_speed_rightward factory_fresh = Some st"
    and st: "program_state st = STATE_RUNNING" "\<not> direction_left st" "runMillis st = 15750"
      "motor_speed st = 41" "prev_motor_speed st = 41" "duty MOTOR_RIGHT_PIN st = 41"
      "duty MOTOR_LEFT_PIN st = 0"
    using reach_running_rightward by blast
  have "loop (pass 305 all_clear) st = Some (st\<lparr>program_state := STATE_STOPPED, direction_left := True\<rparr>)"
    by (rule emergency_stop_no_write) (simp_all add: st passes RUN_MAX_TIMER_def)
  then have c: "run (full_speed_rightward @ [pass 305 all_clear]) factory_fresh =
      Some (st\<lparr>program_state := STATE_STOPPED, direction_left := True\<rparr>)"
    by (simp add: run_snoc [OF r])
  show ?thesis
    using a b st by (auto simp: c r duty_def)
qed

end
